theory Spec2Isabelle
  imports Complex_Main "HOL-Library.Multiset"
begin

section \<open>Text, the Unicode tables and the regular expressions of the chatbot\<close>

text \<open>
  A Python string is a list of code points. What Python and the store know about a code
  point (which ones are decimal digits, word characters or white space, how a string is
  lowered, which characters are equal when case is ignored) is data of the Unicode
  database, which is not part of the repository: it is a parameter of the model, the
  record \<open>unicode_db\<close>, and every result below that does not say otherwise holds for
  all such tables. The patterns of \<^verbatim>\<open>main.py\<close> are of two shapes, a list of literal
  alternatives between two word boundaries, and a literal prefix followed by one or more
  digits; both are written as matchers at one position, and \<^verbatim>\<open>re.search\<close> tries the
  positions from left to right.
\<close>

type_synonym ustring = "nat list"

definition ustr :: "string \<Rightarrow> ustring" where
  \<comment> \<open>the code points of a literal\<close>
  "ustr s = map of_char s"

record unicode_db =
  u_digit :: "nat \<Rightarrow> bool"
  u_word :: "nat \<Rightarrow> bool"
  u_space :: "nat \<Rightarrow> bool"
  u_lower :: "ustring \<Rightarrow> ustring"
  u_ci_eq :: "nat \<Rightarrow> nat \<Rightarrow> bool"
  sql_ci_eq :: "nat \<Rightarrow> nat \<Rightarrow> bool"

text \<open>
  The fields are: the class \<^verbatim>\<open>\d\<close>; the class \<^verbatim>\<open>\w\<close>; \<^verbatim>\<open>str.isspace\<close>;
  \<^verbatim>\<open>str.lower\<close>; whether a character of a pattern compiled with \<^verbatim>\<open>re.I\<close> matches a
  character of the subject; and the same for the store's \<^verbatim>\<open>ILIKE\<close>.
\<close>

definition strip :: "unicode_db \<Rightarrow> ustring \<Rightarrow> ustring" where
  \<comment> \<open>\<^verbatim>\<open>str.strip\<close> without argument\<close>
  "strip U s = rev (dropWhile (u_space U) (rev (dropWhile (u_space U) s)))"

fun split_from :: "unicode_db \<Rightarrow> ustring \<Rightarrow> ustring \<Rightarrow> ustring list" where
  \<comment> \<open>the second argument is the word being read, reversed\<close>
  "split_from U cur [] = (if cur = [] then [] else [rev cur])"
| "split_from U cur (c # cs) =
     (if u_space U c
      then (if cur = [] then split_from U [] cs else rev cur # split_from U [] cs)
      else split_from U (c # cur) cs)"

definition split :: "unicode_db \<Rightarrow> ustring \<Rightarrow> ustring list" where
  \<comment> \<open>\<^verbatim>\<open>str.split\<close> without argument: the maximal runs of characters that are no space\<close>
  "split U s = split_from U [] s"

definition startswith :: "ustring \<Rightarrow> ustring \<Rightarrow> bool" where
  "startswith s p = (take (length p) s = p)"

fun py_find :: "nat \<Rightarrow> ustring \<Rightarrow> int" where
  \<comment> \<open>\<^verbatim>\<open>str.find\<close> of one character: the least index, or -1\<close>
  "py_find c [] = - 1"
| "py_find c (x # xs) =
     (if x = c then 0 else (let r = py_find c xs in if r = - 1 then - 1 else r + 1))"

definition py_rfind :: "nat \<Rightarrow> ustring \<Rightarrow> int" where
  \<comment> \<open>\<^verbatim>\<open>str.rfind\<close> of one character: the greatest index, or -1\<close>
  "py_rfind c s =
     (let r = py_find c (rev s) in if r = - 1 then - 1 else int (length s) - 1 - r)"

definition slice :: "ustring \<Rightarrow> int \<Rightarrow> int \<Rightarrow> ustring" where
  \<comment> \<open>\<^verbatim>\<open>text[a : b]\<close> for indices that are not negative\<close>
  "slice s a b = take (nat (b - a)) (drop (nat a) s)"

definition open_brace :: nat where
  "open_brace = 123"

definition close_brace :: nat where
  "close_brace = 125"

fun digits_of :: "nat \<Rightarrow> ustring" where
  "digits_of n = (if n < 10 then [48 + n] else digits_of (n div 10) @ [48 + n mod 10])"

definition str_int :: "int \<Rightarrow> ustring" where
  \<comment> \<open>\<^verbatim>\<open>str\<close> of an integer, as an f-string renders it; 45 is the minus sign\<close>
  "str_int i = (if i < 0 then 45 # digits_of (nat (- i)) else digits_of (nat i))"

definition str_opt :: "ustring option \<Rightarrow> ustring" where
  \<comment> \<open>an f-string field holding a string or \<^verbatim>\<open>None\<close>\<close>
  "str_opt v = (case v of None \<Rightarrow> ustr ''None'' | Some s \<Rightarrow> s)"

subsection \<open>Matching at one position\<close>

definition chars_eq :: "unicode_db \<Rightarrow> bool \<Rightarrow> nat \<Rightarrow> nat \<Rightarrow> bool" where
  \<comment> \<open>a character of the pattern against one of the subject; the flag is \<^verbatim>\<open>re.I\<close>\<close>
  "chars_eq U ci p c = (if ci then u_ci_eq U p c else p = c)"

fun match_lit :: "unicode_db \<Rightarrow> bool \<Rightarrow> ustring \<Rightarrow> ustring \<Rightarrow> (ustring \<times> ustring) option" where
  \<comment> \<open>a literal at the head of the subject: the text matched and the rest\<close>
  "match_lit U ci [] s = Some ([], s)"
| "match_lit U ci (p # ps) [] = None"
| "match_lit U ci (p # ps) (c # cs) =
     (if chars_eq U ci p c
      then (case match_lit U ci ps cs of None \<Rightarrow> None | Some (m, r) \<Rightarrow> Some (c # m, r))
      else None)"

definition head_opt :: "ustring \<Rightarrow> nat option" where
  "head_opt s = (case s of [] \<Rightarrow> None | c # _ \<Rightarrow> Some c)"

definition boundary :: "unicode_db \<Rightarrow> nat option \<Rightarrow> nat option \<Rightarrow> bool" where
  \<comment> \<open>\<^verbatim>\<open>\b\<close> between the character before and the character after; outside the
      subject there is no word character\<close>
  "boundary U a b =
     ((case a of None \<Rightarrow> False | Some c \<Rightarrow> u_word U c) \<noteq>
      (case b of None \<Rightarrow> False | Some c \<Rightarrow> u_word U c))"

definition match_word_at :: "unicode_db \<Rightarrow> bool \<Rightarrow> ustring \<Rightarrow> nat option \<Rightarrow> ustring \<Rightarrow> ustring option" where
  \<comment> \<open>\<^verbatim>\<open>\b(lit)\b\<close> at one position, the character before being \<open>prev\<close>: group 1\<close>
  "match_word_at U ci lit prev s =
     (case match_lit U ci lit s of
        None \<Rightarrow> None
      | Some (m, r) \<Rightarrow>
          if boundary U prev (head_opt s) \<and>
             boundary U (if m = [] then prev else Some (last m)) (head_opt r)
          then Some m else None)"

fun match_alts_at :: "unicode_db \<Rightarrow> bool \<Rightarrow> ustring list \<Rightarrow> nat option \<Rightarrow> ustring \<Rightarrow> ustring option" where
  \<comment> \<open>\<^verbatim>\<open>\b(a|b|...)\b\<close> at one position: the alternatives are tried in order\<close>
  "match_alts_at U ci [] prev s = None"
| "match_alts_at U ci (a # as) prev s =
     (case match_word_at U ci a prev s of
        Some m \<Rightarrow> Some m
      | None \<Rightarrow> match_alts_at U ci as prev s)"

fun give_back :: "(nat \<Rightarrow> ustring \<Rightarrow> bool) \<Rightarrow> ustring \<Rightarrow> ustring \<Rightarrow> ustring option" where
  \<comment> \<open>The backtracking of the greedy \<^verbatim>\<open>\d+\<close>: the digits taken so far (the last one
      first) and the text after them. The longest run the rest of the pattern accepts
      wins; a run of no digit is no match.\<close>
  "give_back ok [] rest = None"
| "give_back ok (d # taken) rest =
     (if ok d rest then Some (rev (d # taken)) else give_back ok taken (d # rest))"

definition match_id_at ::
  "unicode_db \<Rightarrow> bool \<Rightarrow> bool \<Rightarrow> ustring \<Rightarrow> nat option \<Rightarrow> ustring \<Rightarrow> ustring option" where
  \<comment> \<open>\<^verbatim>\<open>(PRE\d+)\<close>, or \<^verbatim>\<open>\bPRE\d+\b\<close> when \<open>bounded\<close>, at one position: the whole match\<close>
  "match_id_at U ci bounded pre prev s =
     (case match_lit U ci pre s of
        None \<Rightarrow> None
      | Some (m, r) \<Rightarrow>
          if bounded \<and> \<not> boundary U prev (head_opt s) then None
          else
            (case give_back (\<lambda>d rest. \<not> bounded \<or> boundary U (Some d) (head_opt rest))
                    (rev (takeWhile (u_digit U) r)) (dropWhile (u_digit U) r) of
               None \<Rightarrow> None
             | Some ds \<Rightarrow> Some (m @ ds)))"

fun re_search :: "(nat option \<Rightarrow> ustring \<Rightarrow> 'a option) \<Rightarrow> nat option \<Rightarrow> ustring \<Rightarrow> 'a option" where
  \<comment> \<open>\<^verbatim>\<open>re.search\<close>: the leftmost position where the matcher succeeds\<close>
  "re_search m prev [] = m prev []"
| "re_search m prev (c # cs) =
     (case m prev (c # cs) of Some r \<Rightarrow> Some r | None \<Rightarrow> re_search m (Some c) cs)"

definition search_words :: "unicode_db \<Rightarrow> bool \<Rightarrow> ustring list \<Rightarrow> ustring \<Rightarrow> ustring option" where
  "search_words U ci alts s = re_search (match_alts_at U ci alts) None s"

definition search_id :: "unicode_db \<Rightarrow> bool \<Rightarrow> bool \<Rightarrow> ustring \<Rightarrow> ustring \<Rightarrow> ustring option" where
  "search_id U ci bounded pre s = re_search (match_id_at U ci bounded pre) None s"

subsection \<open>The tables on ASCII\<close>

text \<open>
  On the code points below 128 the tables are known: the ten digits, the letters, digits
  and underscore, the ten white-space characters of \<^verbatim>\<open>str.isspace\<close>, and the two cases of
  the 26 letters. \<open>ascii_tables\<close> extends this to all code points in the simplest way
  (nothing else is a digit, a word character or a space, or has another case);
  \<open>agrees_on_ascii\<close> says of any tables that they are these on ASCII ustring.
\<close>

definition ascii_lower_char :: "nat \<Rightarrow> nat" where
  "ascii_lower_char c = (if 65 \<le> c \<and> c \<le> 90 then c + 32 else c)"

definition ascii_tables :: unicode_db where
  "ascii_tables =
     \<lparr>u_digit = (\<lambda>c. 48 \<le> c \<and> c \<le> 57),
      u_word = (\<lambda>c. (48 \<le> c \<and> c \<le> 57) \<or> (65 \<le> c \<and> c \<le> 90) \<or> (97 \<le> c \<and> c \<le> 122) \<or> c = 95),
      u_space = (\<lambda>c. c = 32 \<or> (9 \<le> c \<and> c \<le> 13) \<or> (28 \<le> c \<and> c \<le> 31)),
      u_lower = map ascii_lower_char,
      u_ci_eq = (\<lambda>p c. ascii_lower_char p = ascii_lower_char c),
      sql_ci_eq = (\<lambda>p c. ascii_lower_char p = ascii_lower_char c)\<rparr>"

definition is_ascii :: "ustring \<Rightarrow> bool" where
  "is_ascii s = list_all (\<lambda>c. c < 128) s"

definition agrees_on_ascii :: "unicode_db \<Rightarrow> bool" where
  "agrees_on_ascii U =
     ((\<forall>c<128. u_digit U c = u_digit ascii_tables c) \<and>
      (\<forall>c<128. u_word U c = u_word ascii_tables c) \<and>
      (\<forall>c<128. u_space U c = u_space ascii_tables c) \<and>
      (\<forall>s. is_ascii s \<longrightarrow> u_lower U s = u_lower ascii_tables s) \<and>
      (\<forall>p<128. \<forall>c<128. u_ci_eq U p c = u_ci_eq ascii_tables p c) \<and>
      (\<forall>p<128. \<forall>c<128. sql_ci_eq U p c = sql_ci_eq ascii_tables p c))"

section \<open>The store\<close>

text \<open>
  The tables of \<^verbatim>\<open>db_model.py\<close>, each a list of rows in insertion order. The integer
  surrogate keys of messages and orders are left out, since no query reads them. A time
  stamp is a clock reading counted in microseconds. \<^verbatim>\<open>ORDER BY created_at\<close> is
  a stable sort of the rows, so rows with equal time stamps stay in insertion order;
  \<^verbatim>\<open>ORDER BY created_at DESC\<close> is its reverse. The process-wide pattern cache of
  \<^verbatim>\<open>main.py\<close> is part of the state. A pattern \<^verbatim>\<open>\b(re.escape(lit))\b\<close> is
  identified with its literal \<open>lit\<close>; \<^verbatim>\<open>time.time()\<close> is a real number of seconds.
  Text keys are compared exactly.
\<close>

record message =
  m_user_id :: ustring
  m_role :: ustring
  m_content :: ustring
  m_created_at :: int

record warranty =
  w_id :: int
  w_duration_months :: int
  w_terms :: ustring

record product =
  p_id :: ustring
  p_name :: ustring
  p_description :: ustring
  p_pros :: "ustring option"
  p_cons :: "ustring option"
  p_warranty_id :: "int option"

record order =
  o_order_id :: ustring
  o_user_id :: ustring
  o_status :: ustring
  o_tracking :: "ustring option"
  o_created_at :: int
  o_product_id :: ustring

type_synonym pattern_cache = "ustring list \<times> (ustring \<rightharpoonup> ustring)"

record state =
  messages :: "message list"
  orders :: "order list"
  products :: "product list"
  warranties :: "warranty list"
  product_patterns_cache :: "pattern_cache option"
  cache_timestamp :: "real option"

datatype http_error = Http_error nat

subsection \<open>db_tool.py\<close>

record turn =
  t_role :: ustring
  t_content :: ustring

record history_item =
  h_role :: ustring
  h_content :: ustring
  h_created_at :: int

record order_info =
  oi_order_id :: ustring
  oi_status :: ustring
  oi_tracking :: "ustring option"
  oi_user_id :: ustring
  oi_product_id :: "ustring option"
  oi_product_name :: "ustring option"

record product_info =
  pi_id :: ustring
  pi_name :: ustring
  pi_description :: ustring
  pi_pros :: "ustring option"
  pi_cons :: "ustring option"

record warranty_info =
  wi_product :: ustring
  wi_product_id :: ustring
  wi_duration_months :: int
  wi_terms :: ustring

datatype order_result = Order_found order_info | Order_not_found "ustring option"

definition persist_message :: "int \<Rightarrow> ustring \<Rightarrow> ustring \<Rightarrow> ustring \<Rightarrow> state \<Rightarrow> state" where
  \<comment> \<open>the first argument is the clock reading that becomes \<^verbatim>\<open>created_at\<close>\<close>
  "persist_message now user_id role content s =
     s\<lparr>messages := messages s @
        [\<lparr>m_user_id = user_id, m_role = role, m_content = content, m_created_at = now\<rparr>]\<rparr>"

definition get_last_n_messages :: "state \<Rightarrow> ustring \<Rightarrow> nat \<Rightarrow> turn list" where
  "get_last_n_messages s user_id n =
     map (\<lambda>r. \<lparr>t_role = m_role r, t_content = m_content r\<rparr>)
       (take n (rev (sort_key m_created_at (filter (\<lambda>m. m_user_id m = user_id) (messages s)))))"

definition get_all_messages_for_user :: "state \<Rightarrow> ustring \<Rightarrow> history_item list" where
  "get_all_messages_for_user s user_id =
     map (\<lambda>item. \<lparr>h_role = m_role item, h_content = m_content item,
                   h_created_at = m_created_at item\<rparr>)
       (sort_key m_created_at (filter (\<lambda>m. m_user_id m = user_id) (messages s)))"

definition order_found :: "state \<Rightarrow> order \<Rightarrow> order_result" where
  \<comment> \<open>the dictionary built from an order row and the product it refers to\<close>
  "order_found s ord =
     (let prod = find (\<lambda>p. p_id p = o_product_id ord) (products s) in
      Order_found \<lparr>oi_order_id = o_order_id ord, oi_status = o_status ord,
                   oi_tracking = o_tracking ord, oi_user_id = o_user_id ord,
                   oi_product_id = map_option p_id prod,
                   oi_product_name = map_option p_name prod\<rparr>)"

definition get_order_status :: "state \<Rightarrow> ustring \<Rightarrow> order_result" where
  "get_order_status s order_id =
     (case find (\<lambda>ord. o_order_id ord = order_id) (orders s) of
        None \<Rightarrow> Order_not_found (Some order_id)
      | Some ord \<Rightarrow> order_found s ord)"

definition get_user_order_status :: "state \<Rightarrow> ustring \<Rightarrow> ustring \<Rightarrow> order_result" where
  "get_user_order_status s user_id order_id =
     (case find (\<lambda>ord. o_order_id ord = order_id \<and> o_user_id ord = user_id) (orders s) of
        None \<Rightarrow> Order_not_found (Some order_id)
      | Some ord \<Rightarrow> order_found s ord)"

definition get_latest_order_for_user :: "state \<Rightarrow> ustring \<Rightarrow> order option" where
  "get_latest_order_for_user s user_id =
     (case rev (sort_key o_created_at (filter (\<lambda>ord. o_user_id ord = user_id) (orders s))) of
        [] \<Rightarrow> None
      | ord # _ \<Rightarrow> Some ord)"

definition percent :: nat where
  "percent = 37"

definition underscore :: nat where
  "underscore = 95"

fun like :: "unicode_db \<Rightarrow> ustring \<Rightarrow> ustring \<Rightarrow> bool" where
  \<comment> \<open>SQL \<^verbatim>\<open>ILIKE\<close>, the pattern first: \<^verbatim>\<open>%\<close> is any run of characters,
      \<^verbatim>\<open>_\<close> any one character, every other character itself in either case\<close>
  "like U [] s = (s = [])"
| "like U (p # ps) [] = (p = percent \<and> like U ps [])"
| "like U (p # ps) (c # cs) =
     (if p = percent then like U ps (c # cs) \<or> like U (p # ps) cs
      else (p = underscore \<or> sql_ci_eq U p c) \<and> like U ps cs)"

definition name_search :: "unicode_db \<Rightarrow> state \<Rightarrow> ustring \<Rightarrow> product option" where
  \<comment> \<open>\<^verbatim>\<open>Product.name.ilike(f"%{identifier}%")\<close>, first row\<close>
  "name_search U s ident =
     find (\<lambda>p. like U (percent # ident @ [percent]) (p_name p)) (products s)"

definition find_product :: "unicode_db \<Rightarrow> state \<Rightarrow> ustring \<Rightarrow> product option" where
  \<comment> \<open>the two look-ups shared by \<^verbatim>\<open>get_product_info\<close> and \<^verbatim>\<open>get_warranty_info\<close>:
      by exact id (the primary key) and then, when nothing was found and the identifier
      does not start with P, by name\<close>
  "find_product U s product_identifier =
     (let product = find (\<lambda>p. p_id p = product_identifier) (products s) in
      if product = None \<and> \<not> startswith product_identifier (ustr ''P'')
      then name_search U s product_identifier
      else product)"

definition get_product_info :: "unicode_db \<Rightarrow> state \<Rightarrow> ustring \<Rightarrow> product_info option" where
  "get_product_info U s product_identifier =
     (case find_product U s product_identifier of
        Some p \<Rightarrow> Some \<lparr>pi_id = p_id p, pi_name = p_name p, pi_description = p_description p,
                         pi_pros = p_pros p, pi_cons = p_cons p\<rparr>
      | None \<Rightarrow> None)"

definition warranty_of :: "state \<Rightarrow> product \<Rightarrow> warranty option" where
  \<comment> \<open>the relationship \<^verbatim>\<open>product.warranty\<close>\<close>
  "warranty_of s p =
     (case p_warranty_id p of
        None \<Rightarrow> None
      | Some wid \<Rightarrow> find (\<lambda>w. w_id w = wid) (warranties s))"

definition get_warranty_info :: "unicode_db \<Rightarrow> state \<Rightarrow> ustring \<Rightarrow> warranty_info option" where
  "get_warranty_info U s product_identifier =
     (case find_product U s product_identifier of
        None \<Rightarrow> None
      | Some p \<Rightarrow>
          (case warranty_of s p of
             None \<Rightarrow> None
           | Some w \<Rightarrow> Some \<lparr>wi_product = p_name p, wi_product_id = p_id p,
                              wi_duration_months = w_duration_months w,
                              wi_terms = w_terms w\<rparr>))"

subsection \<open>db_seed.py\<close>

definition fresh_warranty_id :: "warranty list \<Rightarrow> int" where
  \<comment> \<open>the key the store gives a new warranty row: one above the greatest key in use\<close>
  "fresh_warranty_id ws = foldr max (map w_id ws) 0 + 1"

definition seed_products :: "int \<Rightarrow> int \<Rightarrow> product list" where
  "seed_products w1 w2 =
     [\<lparr>p_id = ustr ''P123'', p_name = ustr ''Headphone Wireless'',
       p_description = ustr ''Headphone wireless berkualitas tinggi dengan noise cancellation.'',
       p_pros = Some (ustr ''Kualitas suara yang bagus; Nyaman dipakai; Baterai tahan lama''),
       p_cons = Some (ustr ''Harga mahal; Case yang besar''),
       p_warranty_id = Some w1\<rparr>,
      \<lparr>p_id = ustr ''P234'', p_name = ustr ''Smartphone X'',
       p_description = ustr ''Smartphone generasi terbaru dengan layar OLED dan sistem triple camera.'',
       p_pros = Some (ustr ''Kamera sangat bagus; Performa cepat; Desain premium''),
       p_cons = Some (ustr ''Harga tinggi; Tidak ada jack headphone''),
       p_warranty_id = Some w2\<rparr>,
      \<lparr>p_id = ustr ''P345'', p_name = ustr ''Gaming Laptop Pro'',
       p_description = ustr ''Laptop gaming yang powerful dengan grafis RTX dan layar high refresh.'',
       p_pros = Some (ustr ''GPU tingkat atas; SSD cepat; Sistem pendingin yang baik''),
       p_cons = Some (ustr ''Berat; Baterai cepat habis''),
       p_warranty_id = Some w1\<rparr>]"

definition seed_orders :: "int \<times> int \<times> int \<Rightarrow> order list" where
  \<comment> \<open>the argument holds the clock readings that become the three \<^verbatim>\<open>created_at\<close>\<close>
  "seed_orders ts =
     (case ts of (t1, t2, t3) \<Rightarrow>
      [\<lparr>o_order_id = ustr ''ORD12345'', o_user_id = ustr ''user1'', o_status = ustr ''Shipped'',
        o_tracking = Some (ustr ''TRACK123''), o_created_at = t1, o_product_id = ustr ''P123''\<rparr>,
       \<lparr>o_order_id = ustr ''ORD23456'', o_user_id = ustr ''user2'', o_status = ustr ''Processing'',
        o_tracking = None, o_created_at = t2, o_product_id = ustr ''P234''\<rparr>,
       \<lparr>o_order_id = ustr ''ORD34567'', o_user_id = ustr ''user1'', o_status = ustr ''Delivered'',
        o_tracking = Some (ustr ''TRACK789''), o_created_at = t3, o_product_id = ustr ''P345''\<rparr>])"

datatype db_error = Integrity_error

definition seed_database :: "int \<times> int \<times> int \<Rightarrow> state \<Rightarrow> db_error + state" where
  \<comment> \<open>Nothing is written when an order exists. A product key already in the table is an
      integrity error of the store: the exception leaves the transaction uncommitted.\<close>
  "seed_database ts s =
     (if orders s \<noteq> [] then Inr s
      else
        (let w1 = fresh_warranty_id (warranties s); w2 = w1 + 1 in
         if \<exists>p \<in> set (products s). p_id p \<in> set (map p_id (seed_products w1 w2))
         then Inl Integrity_error
         else Inr (s\<lparr>warranties := warranties s @
                       [\<lparr>w_id = w1, w_duration_months = 24,
                         w_terms = ustr ''Hanya mencakup cacat produksi.''\<rparr>,
                        \<lparr>w_id = w2, w_duration_months = 12,
                         w_terms = ustr ''Termasuk perlindungan kerusakan tidak disengaja.''\<rparr>],
                     products := products s @ seed_products w1 w2,
                     orders := orders s @ seed_orders ts\<rparr>)))"

section \<open>main.py\<close>

subsection \<open>Values read from the model's text\<close>

text \<open>
  What \<^verbatim>\<open>json.loads\<close> returns. The parser itself belongs to the Python library and is
  a parameter of the model, as are \<^verbatim>\<open>json.dumps\<close>, the gateway and the clocks: the
  record \<open>env\<close> holds what one request reads from its surroundings. A dictionary is an
  association list with distinct keys.
\<close>

datatype json =
    JNull
  | JBool bool
  | JInt int
  | JFloat real
  | JStr ustring
  | JArr "json list"
  | JObj "(ustring \<times> json) list"

fun truthy :: "json \<Rightarrow> bool" where
  "truthy JNull = False"
| "truthy (JBool b) = b"
| "truthy (JInt i) = (i \<noteq> 0)"
| "truthy (JFloat r) = (r \<noteq> 0)"
| "truthy (JStr t) = (t \<noteq> [])"
| "truthy (JArr xs) = (xs \<noteq> [])"
| "truthy (JObj kv) = (kv \<noteq> [])"

definition mk_action :: "ustring \<Rightarrow> ustring \<Rightarrow> json" where
  \<comment> \<open>the dictionary \<^verbatim>\<open>{"action": a, "action_input": i}\<close>\<close>
  "mk_action a i = JObj [(ustr ''action'', JStr a), (ustr ''action_input'', JStr i)]"

datatype tool_output =
    Order_output order_result
  | Warranty_output warranty_info
  | Product_output product_info
  | Unsupported_tool

record env =
  llm_ask :: "turn list \<Rightarrow> ustring \<Rightarrow> ustring option"
  json_loads :: "ustring \<Rightarrow> json option"
  json_dumps :: "json \<Rightarrow> tool_output option \<Rightarrow> ustring"
  format_value :: "json \<Rightarrow> ustring"
  utcnow_user :: int
  utcnow_tool :: int
  utcnow_reply :: int
  time_check :: real
  time_store :: real

record chat_request =
  req_user_id :: ustring
  req_message :: ustring

record chat_response =
  reply :: ustring
  tool_called :: "ustring option"
  tool_output :: "tool_output option"

definition try_parse_json_action :: "(ustring \<Rightarrow> json option) \<Rightarrow> ustring \<Rightarrow> json option" where
  \<comment> \<open>the first argument is \<^verbatim>\<open>json.loads\<close>, \<open>None\<close> when it raises\<close>
  "try_parse_json_action loads text =
     (let start = py_find open_brace text; stop = py_rfind close_brace text in
      if start \<noteq> - 1 \<and> stop \<noteq> - 1 \<and> stop > start
      then loads (slice text start (stop + 1))
      else None)"

subsection \<open>The pattern cache\<close>

definition add_pattern :: "ustring \<Rightarrow> ustring \<Rightarrow> pattern_cache \<Rightarrow> pattern_cache" where
  \<comment> \<open>\<^verbatim>\<open>patterns.append(pattern); product_mapping[pattern] = product.name\<close>\<close>
  "add_pattern name lit c = (fst c @ [lit], (snd c)(lit \<mapsto> name))"

definition product_patterns :: "unicode_db \<Rightarrow> product \<Rightarrow> pattern_cache \<Rightarrow> pattern_cache" where
  \<comment> \<open>the body of the loop over the products\<close>
  "product_patterns U product c =
     (let c1 = add_pattern (p_name product) (u_lower U (p_name product)) c;
          name_words = split U (u_lower U (p_name product));
          significant_words = filter (\<lambda>word. length word > 3) name_words
      in fold (add_pattern (p_name product)) significant_words c1)"

definition build_patterns :: "unicode_db \<Rightarrow> product list \<Rightarrow> pattern_cache" where
  "build_patterns U ps = fold (product_patterns U) ps ([], Map.empty)"

definition get_product_patterns ::
  "unicode_db \<Rightarrow> real \<times> real \<Rightarrow> state \<Rightarrow> pattern_cache \<times> state" where
  \<comment> \<open>the second argument holds the two readings of \<^verbatim>\<open>time.time()\<close>: at the freshness
      test and when the rebuilt cache is stored\<close>
  "get_product_patterns U now s =
     (let rebuilt = build_patterns U (products s);
          miss = (rebuilt, s\<lparr>product_patterns_cache := Some rebuilt,
                              cache_timestamp := Some (snd now)\<rparr>)
      in case product_patterns_cache s of
           None \<Rightarrow> miss
         | Some c \<Rightarrow>
             (case cache_timestamp s of
                None \<Rightarrow> miss
              | Some ts \<Rightarrow> if fst now - ts < 300 then (c, s) else miss))"

record patterns =
  pt_order_id :: "ustring option"
  pt_product_id :: "ustring option"
  pt_product_name :: "ustring option"
  pt_matched_product :: "ustring option"

fun first_match :: "unicode_db \<Rightarrow> ustring list \<Rightarrow> ustring \<Rightarrow> (ustring \<times> ustring) option" where
  \<comment> \<open>the loop with \<^verbatim>\<open>break\<close>: the first pattern of the list that matches, and group 1\<close>
  "first_match U [] message = None"
| "first_match U (pat # pats) message =
     (case search_words U True [pat] message of
        Some m \<Rightarrow> Some (pat, m)
      | None \<Rightarrow> first_match U pats message)"

definition extract_patterns ::
  "unicode_db \<Rightarrow> real \<times> real \<Rightarrow> ustring \<Rightarrow> state \<Rightarrow> patterns \<times> state" where
  \<comment> \<open>each match object is kept as the text of its group 1\<close>
  "extract_patterns U now message s =
     (case get_product_patterns U now s of
        ((pattern_list, product_mapping), s') \<Rightarrow>
          (let found = first_match U pattern_list message in
           (\<lparr>pt_order_id = search_id U True False (ustr ''ORD'') message,
             pt_product_id = search_id U True False (ustr ''P'') message,
             pt_product_name = map_option snd found,
             pt_matched_product =
               (case found of None \<Rightarrow> None | Some (pat, m) \<Rightarrow> product_mapping pat)\<rparr>,
            s')))"

subsection \<open>The fallback classifier and the warranty safeguard\<close>

definition with_product :: "ustring \<Rightarrow> patterns \<Rightarrow> json option" where
  \<comment> \<open>the inner \<^verbatim>\<open>if product_id ... elif product_name\<close> of both keyword rules\<close>
  "with_product tool pats =
     (case pt_product_id pats of
        Some pid \<Rightarrow> Some (mk_action tool pid)
      | None \<Rightarrow>
          (case pt_product_name pats of
             Some name \<Rightarrow> Some (mk_action tool name)
           | None \<Rightarrow> None))"

definition order_phrases :: "ustring list" where
  "order_phrases = [ustr ''pesanan saya'', ustr ''status pesanan'', ustr ''dimana pesanan'',
                    ustr ''my order'', ustr ''order status'']"

definition warranty_words :: "ustring list" where
  \<comment> \<open>the warranty keywords of the fallback classifier\<close>
  "warranty_words = [ustr ''garansi'', ustr ''warranty'', ustr ''guarantee'', ustr ''jaminan'']"

definition info_words :: "ustring list" where
  "info_words = [ustr ''kelebihan'', ustr ''kekurangan'', ustr ''deskripsi'', ustr ''detail'',
                 ustr ''pros'', ustr ''cons'', ustr ''description'', ustr ''about'', ustr ''info'']"

definition safeguard_words :: "ustring list" where
  \<comment> \<open>the warranty keywords of the safeguard\<close>
  "safeguard_words = [ustr ''garansi'', ustr ''warranty'']"

definition determine_fallback_action :: "unicode_db \<Rightarrow> ustring \<Rightarrow> patterns \<Rightarrow> json option" where
  "determine_fallback_action U message pats =
     (case pt_order_id pats of
        Some oid \<Rightarrow> Some (mk_action (ustr ''get_order_status'') oid)
      | None \<Rightarrow>
          if search_words U True order_phrases message \<noteq> None
          then Some (mk_action (ustr ''get_order_status'') [])
          else
            (case (if search_words U True warranty_words message \<noteq> None
                   then with_product (ustr ''get_warranty_info'') pats else None) of
               Some a \<Rightarrow> Some a
             | None \<Rightarrow>
                 if search_words U True info_words message \<noteq> None
                 then with_product (ustr ''get_product_info'') pats else None))"

fun first_some :: "'a option list \<Rightarrow> 'a option" where
  "first_some [] = None"
| "first_some (None # xs) = first_some xs"
| "first_some (Some x # xs) = Some x"

datatype safeguard = No_safeguard | Ask_product | Safeguard_action json

definition handle_warranty_safeguard ::
  "unicode_db \<Rightarrow> state \<Rightarrow> ustring \<Rightarrow> ustring \<Rightarrow> turn list \<Rightarrow> safeguard" where
  \<comment> \<open>a chosen product that is the empty string counts as none, as in Python\<close>
  "handle_warranty_safeguard U s user_id message last_messages =
     (let product_match = search_id U False True (ustr ''P'') message in
      if search_words U True safeguard_words message = None then No_safeguard
      else
        (case product_match of
           Some pid \<Rightarrow> Safeguard_action (mk_action (ustr ''get_warranty_info'') pid)
         | None \<Rightarrow>
             (let chosen_product =
                    (case get_latest_order_for_user s user_id of
                       None \<Rightarrow> []
                     | Some last_order \<Rightarrow> o_product_id last_order);
                  chosen_product =
                    (if chosen_product = []
                     then (case first_some
                                  (map (\<lambda>m. search_id U False True (ustr ''P'') (t_content m))
                                     last_messages) of
                             None \<Rightarrow> chosen_product
                           | Some pm \<Rightarrow> pm)
                     else chosen_product)
              in if chosen_product \<noteq> []
                 then Safeguard_action (mk_action (ustr ''get_warranty_info'') chosen_product)
                 else Ask_product)))"

subsection \<open>The chat endpoint\<close>

definition em_dash :: ustring where
  \<comment> \<open>the dash of the two apologies, U+2014\<close>
  "em_dash = [8212]"

definition ask_product_reply :: ustring where
  "ask_product_reply = ustr ''Produk mana yang ingin Anda ketahui informasi garansinya?''"

definition needs_fallback :: "json option \<Rightarrow> http_error + bool" where
  \<comment> \<open>\<^verbatim>\<open>not action_json or action_json.get("action") == "none"\<close>; a value that is
      true and no dictionary has no \<^verbatim>\<open>get\<close>, and the exception ends the request\<close>
  "needs_fallback action_json =
     (case action_json of
        None \<Rightarrow> Inr True
      | Some j \<Rightarrow>
          if \<not> truthy j then Inr True
          else (case j of
                  JObj kv \<Rightarrow> Inr (map_of kv (ustr ''action'') = Some (JStr (ustr ''none'')))
                | _ \<Rightarrow> Inl (Http_error 500)))"

definition selected_action :: "json option \<Rightarrow> http_error + (json \<times> json) option" where
  \<comment> \<open>the test before the tools run, with \<^verbatim>\<open>action\<close> and \<^verbatim>\<open>action_input\<close> when it holds\<close>
  "selected_action action_json =
     (case action_json of
        None \<Rightarrow> Inr None
      | Some j \<Rightarrow>
          if \<not> truthy j then Inr None
          else (case j of
                  JObj kv \<Rightarrow>
                    (case map_of kv (ustr ''action'') of
                       None \<Rightarrow> Inr None
                     | Some a \<Rightarrow>
                         if truthy a \<and> a \<noteq> JStr (ustr ''none'')
                         then Inr (Some (a, (case map_of kv (ustr ''action_input'') of
                                               None \<Rightarrow> JStr []
                                             | Some v \<Rightarrow> v)))
                         else Inr None)
                | _ \<Rightarrow> Inl (Http_error 500)))"

definition order_tool :: "unicode_db \<Rightarrow> state \<Rightarrow> ustring \<Rightarrow> turn list \<Rightarrow> ustring \<Rightarrow> order_result" where
  "order_tool U s user_id last_messages action_input =
     (let order_id = strip U action_input in
      if order_id = [] then
        (case first_some (map (\<lambda>m. search_id U False False (ustr ''ORD'') (t_content m))
                            last_messages) of
           Some last_order_id \<Rightarrow> get_user_order_status s user_id last_order_id
         | None \<Rightarrow>
             (case get_latest_order_for_user s user_id of
                Some latest_order \<Rightarrow> order_found s latest_order
              | None \<Rightarrow> Order_not_found None))
      else get_user_order_status s user_id order_id)"

definition order_reply :: "order_result \<Rightarrow> ustring" where
  "order_reply out =
     (case out of
        Order_found oi \<Rightarrow>
          ustr ''Pesanan '' @ oi_order_id oi @ ustr '' saat ini berstatus: '' @ oi_status oi @
          ustr ''.'' @
          (case oi_tracking oi of
             None \<Rightarrow> []
           | Some t \<Rightarrow> if t \<noteq> [] then ustr '' Tracking: '' @ t @ ustr ''.'' else [])
      | Order_not_found _ \<Rightarrow> ustr ''Anda tidak memiliki pesanan dengan nomor tersebut.'')"

definition warranty_reply :: "warranty_info option \<Rightarrow> ustring \<Rightarrow> ustring" where
  \<comment> \<open>10 is the line feed\<close>
  "warranty_reply out action_input =
     (case out of
        Some wi \<Rightarrow>
          ustr ''Anda dapat mengklaim garansi dengan mengirim email ke warranty@company.com. '' @
          ustr ''Pastikan klaim Anda sesuai dengan detail garansi produk. '' @
          ustr ''Detailnya adalah sebagai berikut.'' @ [10, 10] @
          ustr ''Produk '' @ wi_product wi @ ustr '' memiliki garansi selama '' @
          str_int (wi_duration_months wi) @ ustr '' bulan. Ketentuan: '' @ wi_terms wi
      | None \<Rightarrow>
          ustr ''Maaf '' @ em_dash @
          ustr '' saya tidak dapat menemukan informasi garansi untuk produk '' @
          action_input @ ustr ''.'')"

definition pros_words :: "ustring list" where
  "pros_words = [ustr ''kelebihan'', ustr ''keunggulan'', ustr ''pros'', ustr ''advantage'']"

definition cons_words :: "ustring list" where
  "cons_words = [ustr ''kekurangan'', ustr ''kelemahan'', ustr ''cons'', ustr ''disadvantage'']"

definition description_words :: "ustring list" where
  "description_words = [ustr ''deskripsi'', ustr ''description'', ustr ''detail'',
                        ustr ''tentang'', ustr ''about'']"

definition product_reply ::
  "unicode_db \<Rightarrow> product_info option \<Rightarrow> ustring \<Rightarrow> ustring \<Rightarrow> ustring" where
  "product_reply U out user_message action_input =
     (case out of
        Some info \<Rightarrow>
          (let msg_lower = u_lower U user_message in
           if search_words U False pros_words msg_lower \<noteq> None
           then ustr ''Kelebihan '' @ pi_name info @ ustr '': '' @ str_opt (pi_pros info)
           else if search_words U False cons_words msg_lower \<noteq> None
           then ustr ''Kekurangan '' @ pi_name info @ ustr '': '' @ str_opt (pi_cons info)
           else if search_words U False description_words msg_lower \<noteq> None
           then ustr ''Deskripsi '' @ pi_name info @ ustr '': '' @ pi_description info
           else ustr ''Produk '' @ pi_name info @ ustr '' (ID: '' @ pi_id info @ ustr '').'' @
                [10] @
                ustr ''Deskripsi: '' @ pi_description info @ [10] @
                ustr ''Kelebihan: '' @ str_opt (pi_pros info) @ [10] @
                ustr ''Kekurangan: '' @ str_opt (pi_cons info))
      | None \<Rightarrow>
          ustr ''Maaf '' @ em_dash @
          ustr '' saya tidak dapat menemukan informasi produk untuk '' @
          action_input @ ustr ''.'')"

definition run_tool ::
  "unicode_db \<Rightarrow> env \<Rightarrow> state \<Rightarrow> ustring \<Rightarrow> ustring \<Rightarrow> turn list \<Rightarrow> json \<Rightarrow> json \<Rightarrow>
   http_error + (tool_output option \<times> ustring)" where
  \<comment> \<open>The branch on \<^verbatim>\<open>action\<close>: the tool's output and the reply. The three tools treat
      their input as a string (\<^verbatim>\<open>strip\<close>, \<^verbatim>\<open>startswith\<close>, a comparison with a text key),
      so any other value ends the request with an exception. 39 is the single quote.\<close>
  "run_tool U e s user_id user_message last_messages action action_input =
     (if action = JStr (ustr ''get_order_status'') then
        (case action_input of
           JStr inp \<Rightarrow>
             (let out = order_tool U s user_id last_messages inp in
              Inr (Some (Order_output out), order_reply out))
         | _ \<Rightarrow> Inl (Http_error 500))
      else if action = JStr (ustr ''get_warranty_info'') then
        (case action_input of
           JStr inp \<Rightarrow>
             (let out = get_warranty_info U s inp in
              Inr (map_option Warranty_output out, warranty_reply out inp))
         | _ \<Rightarrow> Inl (Http_error 500))
      else if action = JStr (ustr ''get_product_info'') then
        (case action_input of
           JStr inp \<Rightarrow>
             (let out = get_product_info U s inp in
              Inr (map_option Product_output out, product_reply U out user_message inp))
         | _ \<Rightarrow> Inl (Http_error 500))
      else
        Inr (Some Unsupported_tool,
             ustr ''Tool '' @ [39] @
             (case action of JStr a \<Rightarrow> a | _ \<Rightarrow> format_value e action) @
             [39] @ ustr '' yang diminta tidak didukung.''))"

definition chat_execute ::
  "unicode_db \<Rightarrow> env \<Rightarrow> ustring \<Rightarrow> ustring \<Rightarrow> turn list \<Rightarrow> ustring \<Rightarrow> json option \<Rightarrow> state \<Rightarrow>
   (http_error + chat_response) \<times> state" where
  \<comment> \<open>The last part of \<^verbatim>\<open>chat\<close>, from the comment "Execute tools" to the end. The
      response model declares \<^verbatim>\<open>tool_called\<close> as an optional string: an action that
      is no string fails its validation, after both rows were persisted.\<close>
  "chat_execute U e user_id user_message last_messages llm_text action_json s =
     (case selected_action action_json of
        Inl err \<Rightarrow> (Inl err, s)
      | Inr None \<Rightarrow>
          (Inr \<lparr>reply = llm_text, tool_called = None, tool_output = None\<rparr>,
           persist_message (utcnow_reply e) user_id (ustr ''assistant'') llm_text s)
      | Inr (Some (action, action_input)) \<Rightarrow>
          (case run_tool U e s user_id user_message last_messages action action_input of
             Inl err \<Rightarrow> (Inl err, s)
           | Inr (out, assistant_reply) \<Rightarrow>
               ((case action of
                   JStr a \<Rightarrow>
                     Inr \<lparr>reply = assistant_reply, tool_called = Some a, tool_output = out\<rparr>
                 | _ \<Rightarrow> Inl (Http_error 500)),
                persist_message (utcnow_reply e) user_id (ustr ''assistant'') assistant_reply
                  (persist_message (utcnow_tool e) user_id (ustr ''tool'')
                     (json_dumps e action out) s))))"

definition chat ::
  "unicode_db \<Rightarrow> env \<Rightarrow> chat_request \<Rightarrow> state \<Rightarrow> (http_error + chat_response) \<times> state" where
  "chat U e req s0 =
     (let user_id = req_user_id req;
          user_message = strip U (req_message req);
          s1 = persist_message (utcnow_user e) user_id (ustr ''user'') user_message s0;
          last_messages = get_last_n_messages s1 user_id 3
      in case llm_ask e last_messages user_message of
           None \<Rightarrow> (Inl (Http_error 500), s1)
         | Some llm_text \<Rightarrow>
             (let action_json = try_parse_json_action (json_loads e) llm_text;
                  warranty_result =
                    handle_warranty_safeguard U s1 user_id user_message last_messages
              in if warranty_result = Ask_product then
                   (Inr \<lparr>reply = ask_product_reply, tool_called = None, tool_output = None\<rparr>,
                    persist_message (utcnow_reply e) user_id (ustr ''assistant'')
                      ask_product_reply s1)
                 else
                   (let action_json = (case warranty_result of
                                         Safeguard_action a \<Rightarrow> Some a
                                       | _ \<Rightarrow> action_json)
                    in case needs_fallback action_json of
                         Inl err \<Rightarrow> (Inl err, s1)
                       | Inr False \<Rightarrow>
                           chat_execute U e user_id user_message last_messages llm_text
                             action_json s1
                       | Inr True \<Rightarrow>
                           (case extract_patterns U (time_check e, time_store e)
                                   user_message s1 of
                              (pats, s2) \<Rightarrow>
                                chat_execute U e user_id user_message last_messages llm_text
                                  (determine_fallback_action U user_message pats) s2))))"

subsection \<open>The administrative endpoints, the history and the order endpoint\<close>

definition invalidate_cache :: "state \<Rightarrow> state" where
  \<comment> \<open>\<^verbatim>\<open>_product_patterns_cache = None; _cache_timestamp = None\<close>\<close>
  "invalidate_cache s = s\<lparr>product_patterns_cache := None, cache_timestamp := None\<rparr>"

definition delete_all_rows :: "state \<Rightarrow> state" where
  \<comment> \<open>the four \<^verbatim>\<open>DELETE FROM\<close> statements and the commit\<close>
  "delete_all_rows s = s\<lparr>messages := [], orders := [], products := [], warranties := []\<rparr>"

definition clear_database :: "state \<Rightarrow> (http_error + ustring) \<times> state" where
  "clear_database s =
     (Inr (ustr ''Database cleared successfully''), invalidate_cache (delete_all_rows s))"

definition seed_database_endpoint ::
  "int \<times> int \<times> int \<Rightarrow> state \<Rightarrow> (http_error + ustring) \<times> state" where
  "seed_database_endpoint ts s =
     (case seed_database ts s of
        Inl err \<Rightarrow> (Inl (Http_error 500), s)
      | Inr s' \<Rightarrow> (Inr (ustr ''Database seeded successfully''), invalidate_cache s'))"

definition reset_database ::
  "int \<times> int \<times> int \<Rightarrow> state \<Rightarrow> (http_error + ustring) \<times> state" where
  "reset_database ts s =
     (let s1 = delete_all_rows s in
      case seed_database ts s1 of
        Inl err \<Rightarrow> (Inl (Http_error 500), s1)
      | Inr s2 \<Rightarrow>
          (Inr (ustr ''Database reset successfully (cleared and reseeded)''),
           invalidate_cache s2))"

record db_status =
  st_messages :: nat
  st_orders :: nat
  st_products :: nat
  st_warranties :: nat
  st_patterns_cached :: bool
  st_cache_age_seconds :: "int option"

definition truncate :: "real \<Rightarrow> int" where
  \<comment> \<open>\<^verbatim>\<open>int(x)\<close>: rounding towards zero\<close>
  "truncate x = (if x < 0 then - \<lfloor>- x\<rfloor> else \<lfloor>x\<rfloor>)"

definition database_status :: "real \<Rightarrow> state \<Rightarrow> (http_error + db_status) \<times> state" where
  \<comment> \<open>the first argument is the reading of \<^verbatim>\<open>time.time()\<close>; a time stamp of zero
      counts as absent, as in Python\<close>
  "database_status now s =
     (Inr \<lparr>st_messages = length (messages s), st_orders = length (orders s),
           st_products = length (products s), st_warranties = length (warranties s),
           st_patterns_cached = (product_patterns_cache s \<noteq> None),
           st_cache_age_seconds =
             (case cache_timestamp s of
                None \<Rightarrow> None
              | Some ts \<Rightarrow> if ts \<noteq> 0 then Some (truncate (now - ts)) else None)\<rparr>,
      s)"

definition history :: "state \<Rightarrow> ustring \<Rightarrow> history_item list" where
  "history s user_id = get_all_messages_for_user s user_id"

definition order_status_endpoint :: "state \<Rightarrow> ustring \<Rightarrow> http_error + order_info" where
  "order_status_endpoint s order_id =
     (case get_order_status s order_id of
        Order_not_found _ \<Rightarrow> Inl (Http_error 404)
      | Order_found oi \<Rightarrow> Inr oi)"

section \<open>Scenario states and surroundings\<close>

text \<open>
  Concrete stores, requests and surroundings on which the results below are instantiated,
  and three notions the statements need: a run of \<open>persist_message\<close> over a list of
  turns, the history that \<open>chat\<close> hands to the gateway and to the safeguard, and
  \<open>no_action_result\<close>, which follows the words of the specification for a request whose
  model text holds no action (the safeguard first, then the fallback classifier, then
  the tool or the model's own text) and is compared with \<open>chat\<close> below.
\<close>

definition empty_state :: state where
  "empty_state = \<lparr>messages = [], orders = [], products = [], warranties = [],
                  product_patterns_cache = None, cache_timestamp = None\<rparr>"

definition seeded_state :: state where
  "seeded_state =
     \<lparr>messages = [],
      orders = seed_orders (1, 2, 3),
      products = seed_products 1 2,
      warranties = [\<lparr>w_id = 1, w_duration_months = 24,
                      w_terms = ustr ''Hanya mencakup cacat produksi.''\<rparr>,
                    \<lparr>w_id = 2, w_duration_months = 12,
                      w_terms = ustr ''Termasuk perlindungan kerusakan tidak disengaja.''\<rparr>],
      product_patterns_cache = None, cache_timestamp = None\<rparr>"

definition named_p_state :: state where
  "named_p_state = empty_state\<lparr>products :=
      [\<lparr>p_id = ustr ''X1'', p_name = ustr ''Phone P1 Max'', p_description = ustr ''Phone'',
        p_pros = None, p_cons = None, p_warranty_id = None\<rparr>]\<rparr>"

definition persist_turns :: "ustring \<Rightarrow> (int \<times> ustring \<times> ustring) list \<Rightarrow> state \<Rightarrow> state" where
  "persist_turns user_id turns s =
     fold (\<lambda>(now, role, content). persist_message now user_id role content) turns s"

definition turn_row :: "ustring \<Rightarrow> int \<times> ustring \<times> ustring \<Rightarrow> message" where
  "turn_row user_id t = (case t of (now, role, content) \<Rightarrow>
     \<lparr>m_user_id = user_id, m_role = role, m_content = content, m_created_at = now\<rparr>)"

definition turn_item :: "int \<times> ustring \<times> ustring \<Rightarrow> history_item" where
  "turn_item t = (case t of (now, role, content) \<Rightarrow>
     \<lparr>h_role = role, h_content = content, h_created_at = now\<rparr>)"

definition supplied_history :: "unicode_db \<Rightarrow> env \<Rightarrow> chat_request \<Rightarrow> state \<Rightarrow> turn list" where
  "supplied_history U e req s =
     get_last_n_messages
       (persist_message (utcnow_user e) (req_user_id req) (ustr ''user'')
          (strip U (req_message req)) s)
       (req_user_id req) 3"


definition simple_env :: env where
  "simple_env =
     \<lparr>llm_ask = (\<lambda>h m. Some (ustr ''Maaf {saya belum mengerti'')),
      json_loads = (\<lambda>t. None),
      json_dumps = (\<lambda>a out. ustr ''{}''),
      format_value = (\<lambda>j. []),
      utcnow_user = 10, utcnow_tool = 11, utcnow_reply = 12,
      time_check = 5, time_store = 5\<rparr>"

definition override_env :: env where
  "override_env =
     simple_env\<lparr>llm_ask := (\<lambda>h m. Some (ustr ''{get_order_status ORD12345} Saya cek pesanan Anda.'')),
                 json_loads := (\<lambda>t. Some (mk_action (ustr ''get_order_status'') (ustr ''ORD12345'')))\<rparr>"

definition failing_env :: env where
  "failing_env = simple_env\<lparr>llm_ask := (\<lambda>h m. None)\<rparr>"

definition quoted :: "string \<Rightarrow> ustring" where
  \<comment> \<open>a literal between two double quotes (code point 34)\<close>
  "quoted t = 34 # ustr t @ [34]"

definition ill_typed_span :: ustring where
  "ill_typed_span =
     ustr ''{'' @ quoted ''action'' @ ustr '': '' @ quoted ''get_order_status'' @ ustr '', '' @
     quoted ''action_input'' @ ustr '': 5}''"

definition ill_typed_env :: env where
  "ill_typed_env =
     simple_env\<lparr>llm_ask := (\<lambda>h m. Some (ill_typed_span @ ustr '' Saya cek dulu.'')),
                 json_loads := (\<lambda>t. if t = ill_typed_span
                                     then Some (JObj [(ustr ''action'', JStr (ustr ''get_order_status'')),
                                                      (ustr ''action_input'', JInt 5)])
                                     else None)\<rparr>"

definition overlap_state :: state where
  "overlap_state = empty_state\<lparr>products :=
      [\<lparr>p_id = ustr ''P123'', p_name = ustr ''Headphone Wireless'', p_description = ustr ''Headphone'',
        p_pros = None, p_cons = None, p_warranty_id = None\<rparr>,
       \<lparr>p_id = ustr ''P456'', p_name = ustr ''Wireless Mouse'', p_description = ustr ''Mouse'',
        p_pros = None, p_cons = None, p_warranty_id = None\<rparr>]\<rparr>"

definition cached_state :: state where
  "cached_state = snd (get_product_patterns ascii_tables (100, 100) seeded_state)"

definition other_user_state :: state where
  "other_user_state = persist_message 1 (ustr ''user2'') (ustr ''user'') (ustr ''cek P234'') seeded_state"

definition example_turns :: "(int \<times> ustring \<times> ustring) list" where
  "example_turns = [(5, ustr ''user'', ustr ''halo''),
                    (7, ustr ''assistant'', ustr ''Hai, ada yang bisa saya bantu?'')]"

definition stale_empty_state :: state where
  "stale_empty_state = empty_state\<lparr>product_patterns_cache := Some ([], Map.empty),
                                    cache_timestamp := Some 100\<rparr>"

section \<open>Results\<close>

lemma ustr_eq [simp]: "(ustr a = ustr b) = (a = b)"
  by (simp add: ustr_def inj_map_eq_map inj_on_def)

lemma ustr_Nil [simp]: "(ustr a = []) = (a = [])" "([] = ustr a) = (a = [])"
  by (auto simp: ustr_def)

lemma seeded: "seed_database (1, 2, 3) empty_state = Inr seeded_state"
  by (simp add: seed_database_def empty_state_def seeded_state_def fresh_warranty_id_def
        seed_products_def)

lemma find_none: "(\<forall>x\<in>set xs. \<not> P x) \<Longrightarrow> find P xs = None"
  by (induction xs) auto

lemma find_product_P:
  assumes "startswith ident (ustr ''P'')" and "\<forall>p\<in>set (products s). p_id p \<noteq> ident"
  shows "find_product U s ident = None"
  using assms by (simp add: find_product_def find_none)

text \<open>
  Claim C10. An identifier that starts with the character P and is the id of no product
  is not found: both \<open>get_product_info\<close> and \<open>get_warranty_info\<close> return \<open>None\<close>, and the
  shared look-up \<open>find_product\<close> does not fall back on the name search, whatever the
  product names contain. The witness has a product whose name contains the identifier.
\<close>

theorem p_prefix_skips_name_search:
  assumes "startswith ident (ustr ''P'')" and "\<forall>p\<in>set (products s). p_id p \<noteq> ident"
  shows "find_product U s ident = None \<and>
         get_product_info U s ident = None \<and> get_warranty_info U s ident = None"
  using find_product_P [OF assms]
  by (simp add: get_product_info_def get_warranty_info_def)

lemma find_product_by_name:
  assumes "\<not> startswith ident (ustr ''P'')" and "\<forall>p\<in>set (products s). p_id p \<noteq> ident"
  shows "find_product U s ident = name_search U s ident"
proof -
  have "find (\<lambda>p. p_id p = ident) (products s) = None"
    using assms(2) by (intro find_none) simp
  with assms(1) show ?thesis by (simp add: find_product_def)
qed

lemma get_user_order_status_other:
  assumes "\<forall>ord\<in>set (orders s). o_order_id ord = oid \<longrightarrow> o_user_id ord \<noteq> uid"
  shows "get_user_order_status s uid oid = Order_not_found (Some oid)"
proof -
  have "find (\<lambda>ord. o_order_id ord = oid \<and> o_user_id ord = uid) (orders s) = None"
    using assms by (intro find_none) auto
  then show ?thesis by (simp add: get_user_order_status_def)
qed

lemma get_order_status_exists:
  assumes "ord \<in> set (orders s)" "o_order_id ord = oid"
  shows "\<exists>oi. get_order_status s oid = Order_found oi \<and> oi_order_id oi = oid"
proof -
  from assms have "find (\<lambda>ord. o_order_id ord = oid) (orders s) \<noteq> None"
    by (auto simp: find_None_iff)
  then obtain x where x: "find (\<lambda>ord. o_order_id ord = oid) (orders s) = Some x" by auto
  then have "o_order_id x = oid" by (auto simp: find_Some_iff)
  with x show ?thesis by (simp add: get_order_status_def order_found_def Let_def)
qed

lemma messages_persist_turns:
  "messages (persist_turns u turns s) = messages s @ map (turn_row u) turns"
  by (induction turns arbitrary: s)
     (auto simp: persist_turns_def persist_message_def turn_row_def)

lemma filter_user_rows: "filter (\<lambda>m. m_user_id m = u) (map (turn_row u) turns) = map (turn_row u) turns"
  by (induction turns) (auto simp: turn_row_def)

lemma sort_key_sorted_id: "sorted (map f xs) \<Longrightarrow> sort_key f xs = xs"
  by (induction xs) (auto simp: insort_is_Cons)

lemma item_of_row: "(\<lambda>item. \<lparr>h_role = m_role item, h_content = m_content item, h_created_at = m_created_at item\<rparr>) (turn_row u t) = turn_item t"
  by (cases t) (simp add: turn_row_def turn_item_def)

lemma created_row: "m_created_at (turn_row u t) = fst t"
  by (cases t) (simp add: turn_row_def)

text \<open>
  Claim C8. For a user without earlier messages, persisting a list of turns and then
  fetching all the user's messages returns as many items as turns were persisted, sorted
  by creation time, with the same roles, contents and time stamps as persisted (as a
  multiset, and as the same list when the clock readings did not decrease).
\<close>

theorem history_round_trip:
  assumes "\<forall>m\<in>set (messages s). m_user_id m \<noteq> u"
  shows "length (get_all_messages_for_user (persist_turns u turns s) u) = length turns \<and>
         sorted (map h_created_at (get_all_messages_for_user (persist_turns u turns s) u)) \<and>
         mset (get_all_messages_for_user (persist_turns u turns s) u) = mset (map turn_item turns) \<and>
         (sorted (map fst turns) \<longrightarrow>
            get_all_messages_for_user (persist_turns u turns s) u = map turn_item turns)"
proof -
  let ?rows = "map (turn_row u) turns"
  have old: "filter (\<lambda>m. m_user_id m = u) (messages s) = []"
    using assms by (auto simp: filter_empty_conv)
  have rows: "filter (\<lambda>m. m_user_id m = u) (messages (persist_turns u turns s)) = ?rows"
    by (simp add: messages_persist_turns old filter_user_rows)
  let ?item = "\<lambda>item. \<lparr>h_role = m_role item, h_content = m_content item, h_created_at = m_created_at item\<rparr>"
  have res: "get_all_messages_for_user (persist_turns u turns s) u = map ?item (sort_key m_created_at ?rows)"
    by (simp add: get_all_messages_for_user_def rows)
  have len: "length (map ?item (sort_key m_created_at ?rows)) = length turns" by simp
  have "map h_created_at (map ?item (sort_key m_created_at ?rows)) = map m_created_at (sort_key m_created_at ?rows)"
    by (simp add: comp_def)
  then have srt: "sorted (map h_created_at (map ?item (sort_key m_created_at ?rows)))"
    by (simp only: sorted_sort_key)
  have "mset (map ?item (sort_key m_created_at ?rows)) = image_mset ?item (mset ?rows)"
    by (simp only: mset_map mset_sort)
  also have "\<dots> = mset (map ?item ?rows)" by (simp only: mset_map)
  also have "map ?item ?rows = map turn_item turns"
    by (simp add: item_of_row)
  finally have ms: "mset (map ?item (sort_key m_created_at ?rows)) = mset (map turn_item turns)" .
  have mono: "sorted (map fst turns) \<longrightarrow> map ?item (sort_key m_created_at ?rows) = map turn_item turns"
  proof
    assume a: "sorted (map fst turns)"
    have eq: "map m_created_at ?rows = map fst turns" by (simp add: created_row)
    from a have "sorted (map m_created_at ?rows)" unfolding eq .
    then have "sort_key m_created_at ?rows = ?rows" by (rule sort_key_sorted_id)
    then show "map ?item (sort_key m_created_at ?rows) = map turn_item turns"
      by (simp add: item_of_row)
  qed
  show ?thesis unfolding res using len srt ms mono by blast
qed

lemma run_tool_order:
  "run_tool U e s uid msg hist (JStr (ustr ''get_order_status'')) (JStr inp) =
     Inr (Some (Order_output (order_tool U s uid hist inp)),
          order_reply (order_tool U s uid hist inp))"
  by (simp add: run_tool_def Let_def)

lemma selected_mk_action:
  "a \<noteq> [] \<Longrightarrow> a \<noteq> ustr ''none'' \<Longrightarrow>
   selected_action (Some (mk_action a i)) = Inr (Some (JStr a, JStr i))"
  by (simp add: selected_action_def mk_action_def)

text \<open>
  Claim C9. When \<open>chat\<close> executes \<open>get_order_status\<close> with an order id that is not empty
  after \<open>strip\<close>, the look-up is restricted to the requesting user: if the order exists
  and belongs to another user, the tool result is "not found" and the reply is the fixed
  "not found" sentence, while the order endpoint returns that order.
\<close>

theorem chat_order_lookup_scoped_to_user:
  assumes "strip U oid \<noteq> []"
    and "ord \<in> set (orders s)" and "o_order_id ord = strip U oid"
    and "\<forall>x\<in>set (orders s). o_order_id x = strip U oid \<longrightarrow> o_user_id x \<noteq> uid"
  shows "get_user_order_status s uid (strip U oid) = Order_not_found (Some (strip U oid)) \<and>
         fst (chat_execute U e uid msg hist txt
                (Some (mk_action (ustr ''get_order_status'') oid)) s) =
           Inr \<lparr>reply = ustr ''Anda tidak memiliki pesanan dengan nomor tersebut.'',
                tool_called = Some (ustr ''get_order_status''),
                tool_output = Some (Order_output (Order_not_found (Some (strip U oid))))\<rparr> \<and>
         (\<exists>oi. get_order_status s (strip U oid) = Order_found oi \<and>
               order_status_endpoint s (strip U oid) = Inr oi)"
proof -
  have scoped: "get_user_order_status s uid (strip U oid) = Order_not_found (Some (strip U oid))"
    using assms(4) by (rule get_user_order_status_other)
  have tool: "order_tool U s uid hist oid = Order_not_found (Some (strip U oid))"
    using assms(1) scoped by (simp add: order_tool_def Let_def)
  have sel: "selected_action (Some (mk_action (ustr ''get_order_status'') oid)) =
               Inr (Some (JStr (ustr ''get_order_status''), JStr oid))"
    by (rule selected_mk_action) simp_all
  have exec: "fst (chat_execute U e uid msg hist txt
                (Some (mk_action (ustr ''get_order_status'') oid)) s) =
           Inr \<lparr>reply = ustr ''Anda tidak memiliki pesanan dengan nomor tersebut.'',
                tool_called = Some (ustr ''get_order_status''),
                tool_output = Some (Order_output (Order_not_found (Some (strip U oid))))\<rparr>"
    by (simp add: chat_execute_def sel run_tool_order tool order_reply_def)
  from get_order_status_exists [OF assms(2,3)]
  obtain oi where oi: "get_order_status s (strip U oid) = Order_found oi" by blast
  then have "order_status_endpoint s (strip U oid) = Inr oi"
    by (simp add: order_status_endpoint_def)
  with oi scoped exec show ?thesis by blast
qed

text \<open>
  Claim C4. Whenever the extracted entities hold an order reference, the fallback
  classifier returns \<open>get_order_status\<close> with exactly that reference, whatever the message
  and the other entities are: the rule comes before every keyword test.
\<close>

theorem fallback_order_reference:
  assumes "pt_order_id pats = Some r"
  shows "determine_fallback_action U message pats = Some (mk_action (ustr ''get_order_status'') r)"
  using assms by (simp add: determine_fallback_action_def)

lemma extract_order_id:
  "pt_order_id (fst (extract_patterns U now message s)) =
     search_id U True False (ustr ''ORD'') message"
  by (simp add: extract_patterns_def Let_def split: prod.splits)

lemma seed_after_delete:
  "\<exists>s'. seed_database ts (delete_all_rows s) = Inr s'"
  by (simp add: seed_database_def delete_all_rows_def Let_def)

lemma invalidate_cache_fields:
  "product_patterns_cache (invalidate_cache s) = None \<and> cache_timestamp (invalidate_cache s) = None"
  by (simp add: invalidate_cache_def)

text \<open>
  Claim C3, as amended. The clear endpoint resets the cached patterns and the time stamp;
  the seed endpoint does so whenever it answers without error; the reset endpoint always
  answers without error and does so; the status endpoint changes nothing, the cache
  included.
\<close>

theorem admin_endpoints_and_cache:
  "product_patterns_cache (snd (clear_database s)) = None \<and>
   cache_timestamp (snd (clear_database s)) = None \<and>
   (\<forall>msg. fst (seed_database_endpoint ts s) = Inr msg \<longrightarrow>
      product_patterns_cache (snd (seed_database_endpoint ts s)) = None \<and>
      cache_timestamp (snd (seed_database_endpoint ts s)) = None) \<and>
   (\<exists>msg. fst (reset_database ts s) = Inr msg) \<and>
   product_patterns_cache (snd (reset_database ts s)) = None \<and>
   cache_timestamp (snd (reset_database ts s)) = None \<and>
   snd (database_status now s) = s"
proof -
  have clear: "product_patterns_cache (snd (clear_database s)) = None \<and>
               cache_timestamp (snd (clear_database s)) = None"
    by (simp add: clear_database_def invalidate_cache_fields)
  have seed: "\<forall>msg. fst (seed_database_endpoint ts s) = Inr msg \<longrightarrow>
      product_patterns_cache (snd (seed_database_endpoint ts s)) = None \<and>
      cache_timestamp (snd (seed_database_endpoint ts s)) = None"
    by (cases "seed_database ts s") (simp_all add: seed_database_endpoint_def invalidate_cache_fields)
  obtain s' where s': "seed_database ts (delete_all_rows s) = Inr s'"
    using seed_after_delete by blast
  have reset: "(\<exists>msg. fst (reset_database ts s) = Inr msg) \<and>
   product_patterns_cache (snd (reset_database ts s)) = None \<and>
   cache_timestamp (snd (reset_database ts s)) = None"
    by (simp add: reset_database_def Let_def s' invalidate_cache_fields)
  have status: "snd (database_status now s) = s"
    by (simp add: database_status_def)
  from clear seed reset status show ?thesis by blast
qed

lemma persist_message_frame [simp]:
  "orders (persist_message t u r c s) = orders s"
  "products (persist_message t u r c s) = products s"
  "warranties (persist_message t u r c s) = warranties s"
  "product_patterns_cache (persist_message t u r c s) = product_patterns_cache s"
  "cache_timestamp (persist_message t u r c s) = cache_timestamp s"
  by (simp_all add: persist_message_def)

lemma name_search_persist [simp]:
  "name_search U (persist_message t u r c s) i = name_search U s i"
  by (simp add: name_search_def)

lemma find_product_persist [simp]:
  "find_product U (persist_message t u r c s) i = find_product U s i"
  by (simp add: find_product_def Let_def)

lemma warranty_of_persist [simp]:
  "warranty_of (persist_message t u r c s) p = warranty_of s p"
  by (simp add: warranty_of_def cong: option.case_cong)

lemma get_warranty_info_persist [simp]:
  "get_warranty_info U (persist_message t u r c s) i = get_warranty_info U s i"
  by (simp add: get_warranty_info_def cong: option.case_cong)

lemma get_product_info_persist [simp]:
  "get_product_info U (persist_message t u r c s) i = get_product_info U s i"
  by (simp add: get_product_info_def)

lemma get_latest_order_persist [simp]:
  "get_latest_order_for_user (persist_message t u r c s) uid = get_latest_order_for_user s uid"
  by (simp add: get_latest_order_for_user_def)

lemma safeguard_persist [simp]:
  "handle_warranty_safeguard U (persist_message t u r c s) uid msg hist =
   handle_warranty_safeguard U s uid msg hist"
  by (simp add: handle_warranty_safeguard_def Let_def cong: option.case_cong)

lemma safeguard_explicit:
  assumes "search_words U True safeguard_words msg \<noteq> None"
    and "search_id U False True (ustr ''P'') msg = Some pid"
  shows "handle_warranty_safeguard U s uid msg hist =
           Safeguard_action (mk_action (ustr ''get_warranty_info'') pid)"
  using assms by (simp add: handle_warranty_safeguard_def)

lemma needs_fallback_mk_action:
  "needs_fallback (Some (mk_action a i)) = Inr (a = ustr ''none'')"
  by (simp add: needs_fallback_def mk_action_def)

lemma run_tool_warranty:
  "run_tool U e s uid msg hist (JStr (ustr ''get_warranty_info'')) (JStr inp) =
     Inr (map_option Warranty_output (get_warranty_info U s inp),
          warranty_reply (get_warranty_info U s inp) inp)"
  by (simp add: run_tool_def Let_def)

lemma run_tool_product:
  "run_tool U e s uid msg hist (JStr (ustr ''get_product_info'')) (JStr inp) =
     Inr (map_option Product_output (get_product_info U s inp),
          product_reply U (get_product_info U s inp) msg inp)"
  by (simp add: run_tool_def Let_def)

lemma chat_execute_warranty:
  "fst (chat_execute U e uid msg hist txt (Some (mk_action (ustr ''get_warranty_info'') i)) s) =
     Inr \<lparr>reply = warranty_reply (get_warranty_info U s i) i,
          tool_called = Some (ustr ''get_warranty_info''),
          tool_output = map_option Warranty_output (get_warranty_info U s i)\<rparr>"
proof -
  have sel: "selected_action (Some (mk_action (ustr ''get_warranty_info'') i)) =
               Inr (Some (JStr (ustr ''get_warranty_info''), JStr i))"
    by (rule selected_mk_action) simp_all
  show ?thesis by (simp add: chat_execute_def sel run_tool_warranty)
qed

lemma chat_execute_product:
  "fst (chat_execute U e uid msg hist txt (Some (mk_action (ustr ''get_product_info'') i)) s) =
     Inr \<lparr>reply = product_reply U (get_product_info U s i) msg i,
          tool_called = Some (ustr ''get_product_info''),
          tool_output = map_option Product_output (get_product_info U s i)\<rparr>"
proof -
  have sel: "selected_action (Some (mk_action (ustr ''get_product_info'') i)) =
               Inr (Some (JStr (ustr ''get_product_info''), JStr i))"
    by (rule selected_mk_action) simp_all
  show ?thesis by (simp add: chat_execute_def sel run_tool_product)
qed

text \<open>
  Claim C1, as amended. When the message (after \<open>strip\<close>) matches the safeguard's
  keywords, the whole words garansi and warranty with case ignored, and the safeguard's
  own id pattern, a whole word made of an upper-case P and digits, at \<open>pid\<close>, the
  safeguard returns \<open>get_warranty_info\<close> with \<open>pid\<close> for every store and history; and when
  the gateway answers, \<open>chat\<close> runs that tool with that id, whatever action the model's
  text holds.
\<close>

theorem safeguard_explicit_id_wins:
  assumes "search_words U True safeguard_words (strip U (req_message req)) \<noteq> None"
    and "search_id U False True (ustr ''P'') (strip U (req_message req)) = Some pid"
    and "llm_ask e (supplied_history U e req s) (strip U (req_message req)) = Some txt"
  shows "handle_warranty_safeguard U s' (req_user_id req) (strip U (req_message req)) hist =
           Safeguard_action (mk_action (ustr ''get_warranty_info'') pid) \<and>
         fst (chat U e req s) =
           Inr \<lparr>reply = warranty_reply (get_warranty_info U s pid) pid,
                tool_called = Some (ustr ''get_warranty_info''),
                tool_output = map_option Warranty_output (get_warranty_info U s pid)\<rparr>"
proof -
  have nf: "needs_fallback (Some (mk_action (ustr ''get_warranty_info'') pid)) = Inr False"
    by (simp add: needs_fallback_mk_action)
  have sg: "\<And>s' h. handle_warranty_safeguard U s' (req_user_id req) (strip U (req_message req)) h =
           Safeguard_action (mk_action (ustr ''get_warranty_info'') pid)"
    using assms(1,2) by (rule safeguard_explicit)
  have "fst (chat U e req s) =
           Inr \<lparr>reply = warranty_reply (get_warranty_info U s pid) pid,
                tool_called = Some (ustr ''get_warranty_info''),
                tool_output = map_option Warranty_output (get_warranty_info U s pid)\<rparr>"
    using assms(3)
    by (simp add: chat_def Let_def supplied_history_def sg nf chat_execute_warranty)
  with sg show ?thesis by blast
qed

lemma latest_order_none:
  assumes "\<forall>ord\<in>set (orders s). o_user_id ord \<noteq> uid"
  shows "get_latest_order_for_user s uid = None"
proof -
  have "filter (\<lambda>ord. o_user_id ord = uid) (orders s) = []"
    using assms by (auto simp: filter_empty_conv)
  then show ?thesis by (simp add: get_latest_order_for_user_def)
qed

lemma first_some_none: "(\<forall>x\<in>set xs. f x = None) \<Longrightarrow> first_some (map f xs) = None"
  by (induction xs) auto

lemma safeguard_ask:
  assumes "search_words U True safeguard_words msg \<noteq> None"
    and "search_id U False True (ustr ''P'') msg = None"
    and "\<forall>ord\<in>set (orders s). o_user_id ord \<noteq> uid"
    and "\<forall>m\<in>set hist. search_id U False True (ustr ''P'') (t_content m) = None"
  shows "handle_warranty_safeguard U s uid msg hist = Ask_product"
proof -
  have h: "first_some (map (\<lambda>m. search_id U False True (ustr ''P'') (t_content m)) hist) = None"
    using assms(4) by (rule first_some_none)
  show ?thesis
    using assms(1,2) by (simp add: handle_warranty_safeguard_def latest_order_none [OF assms(3)] h)
qed

text \<open>
  Claim C5, as amended. The user has no order, the message matches the safeguard's
  keywords (garansi or warranty) and not its id pattern, no turn of the supplied history
  matches the id pattern, and the gateway answers. Then \<open>chat\<close> returns the fixed question
  with no tool called and no tool output, and the store differs from the one before the
  request by exactly two appended rows: the user's message and the question.
\<close>

theorem clarification_persists_two_turns:
  assumes "search_words U True safeguard_words (strip U (req_message req)) \<noteq> None"
    and "search_id U False True (ustr ''P'') (strip U (req_message req)) = None"
    and "\<forall>ord\<in>set (orders s). o_user_id ord \<noteq> req_user_id req"
    and "\<forall>m\<in>set (supplied_history U e req s).
           search_id U False True (ustr ''P'') (t_content m) = None"
    and "llm_ask e (supplied_history U e req s) (strip U (req_message req)) = Some txt"
  shows "chat U e req s =
           (Inr \<lparr>reply = ustr ''Produk mana yang ingin Anda ketahui informasi garansinya?'',
                 tool_called = None, tool_output = None\<rparr>,
            s\<lparr>messages := messages s @
                [\<lparr>m_user_id = req_user_id req, m_role = ustr ''user'',
                  m_content = strip U (req_message req), m_created_at = utcnow_user e\<rparr>,
                 \<lparr>m_user_id = req_user_id req, m_role = ustr ''assistant'',
                  m_content = ustr ''Produk mana yang ingin Anda ketahui informasi garansinya?'',
                  m_created_at = utcnow_reply e\<rparr>]\<rparr>)"
proof -
  have sg: "handle_warranty_safeguard U s (req_user_id req) (strip U (req_message req))
              (supplied_history U e req s) = Ask_product"
    using assms(1-4) by (rule safeguard_ask)
  have "chat U e req s =
          (Inr \<lparr>reply = ask_product_reply, tool_called = None, tool_output = None\<rparr>,
           persist_message (utcnow_reply e) (req_user_id req) (ustr ''assistant'') ask_product_reply
             (persist_message (utcnow_user e) (req_user_id req) (ustr ''user'')
                (strip U (req_message req)) s))"
    using assms(5) sg by (simp add: chat_def Let_def supplied_history_def)
  then show ?thesis
    by (simp add: ask_product_reply_def persist_message_def)
qed


















text \<open>
  The scenario texts below are ASCII, and on ASCII text every tables that are the known
  ones there compute what \<open>ascii_tables\<close> compute. The closed results are stated with
  \<open>ascii_tables\<close>; the lemmas named \<open>..._any_tables\<close> state the same for all tables
  that agree with them on ASCII.
\<close>

lemma agrees_rules:
  assumes "agrees_on_ascii U"
  shows "c < 128 \<Longrightarrow> u_digit U c = (48 \<le> c \<and> c \<le> 57)"
    and "c < 128 \<Longrightarrow> u_word U c = ((48 \<le> c \<and> c \<le> 57) \<or> (65 \<le> c \<and> c \<le> 90) \<or> (97 \<le> c \<and> c \<le> 122) \<or> c = 95)"
    and "c < 128 \<Longrightarrow> u_space U c = (c = 32 \<or> (9 \<le> c \<and> c \<le> 13) \<or> (28 \<le> c \<and> c \<le> 31))"
    and "is_ascii t \<Longrightarrow> u_lower U t = map ascii_lower_char t"
    and "p < 128 \<Longrightarrow> c < 128 \<Longrightarrow> u_ci_eq U p c = (ascii_lower_char p = ascii_lower_char c)"
    and "p < 128 \<Longrightarrow> c < 128 \<Longrightarrow> sql_ci_eq U p c = (ascii_lower_char p = ascii_lower_char c)"
  using assms by (simp_all add: agrees_on_ascii_def ascii_tables_def)

lemma agrees_ascii_tables: "agrees_on_ascii ascii_tables"
  by (simp add: agrees_on_ascii_def)

lemmas eval_defs =
  search_words_def search_id_def match_word_at_def match_id_at_def chars_eq_def boundary_def
  head_opt_def strip_def split_def ustr_def ascii_lower_char_def is_ascii_def
  safeguard_words_def warranty_words_def info_words_def order_phrases_def
  pros_words_def cons_words_def description_words_def percent_def underscore_def

lemma msg_strip:
  assumes "agrees_on_ascii U"
  shows "strip U (ustr ''apa kelebihan headphone'') = ustr ''apa kelebihan headphone''"
  by (simp add: eval_defs agrees_rules [OF assms])

lemma msg_no_warranty:
  assumes "agrees_on_ascii U"
  shows "search_words U True safeguard_words (ustr ''apa kelebihan headphone'') = None"
  by (simp add: eval_defs agrees_rules [OF assms])

lemma msg_no_ids:
  assumes "agrees_on_ascii U"
  shows "search_id U True False (ustr ''ORD'') (ustr ''apa kelebihan headphone'') = None"
    and "search_id U True False (ustr ''P'') (ustr ''apa kelebihan headphone'') = None"
  by (simp_all add: eval_defs agrees_rules [OF assms])

lemma seed_pattern_list:
  assumes "agrees_on_ascii U"
  shows "fst (build_patterns U (seed_products w1 w2)) =
     [ustr ''headphone wireless'', ustr ''headphone'', ustr ''wireless'', ustr ''smartphone x'',
      ustr ''smartphone'', ustr ''gaming laptop pro'', ustr ''gaming'', ustr ''laptop'']"
  by (simp add: build_patterns_def seed_products_def product_patterns_def add_pattern_def
        eval_defs agrees_rules [OF assms])

lemma seed_pattern_map:
  assumes "agrees_on_ascii U"
  shows "snd (build_patterns U (seed_products w1 w2)) (ustr ''headphone'') =
           Some (ustr ''Headphone Wireless'')"
  by (simp add: build_patterns_def seed_products_def product_patterns_def add_pattern_def
        eval_defs agrees_rules [OF assms])

lemma msg_first_match:
  assumes "agrees_on_ascii U"
  shows "first_match U
     [ustr ''headphone wireless'', ustr ''headphone'', ustr ''wireless'', ustr ''smartphone x'',
      ustr ''smartphone'', ustr ''gaming laptop pro'', ustr ''gaming'', ustr ''laptop'']
     (ustr ''apa kelebihan headphone'') = Some (ustr ''headphone'', ustr ''headphone'')"
  by (simp add: eval_defs agrees_rules [OF assms])

lemma msg_fallback:
  assumes "agrees_on_ascii U"
  shows "determine_fallback_action U (ustr ''apa kelebihan headphone'')
     \<lparr>pt_order_id = None, pt_product_id = None, pt_product_name = Some (ustr ''headphone''),
      pt_matched_product = Some (ustr ''Headphone Wireless'')\<rparr> =
   Some (mk_action (ustr ''get_product_info'') (ustr ''headphone''))"
  by (simp add: determine_fallback_action_def with_product_def mk_action_def
        eval_defs agrees_rules [OF assms])

lemma headphone_info:
  assumes "agrees_on_ascii U" and "products s = seed_products w1 w2"
  shows "get_product_info U s (ustr ''headphone'') =
     Some \<lparr>pi_id = ustr ''P123'', pi_name = ustr ''Headphone Wireless'',
           pi_description = ustr ''Headphone wireless berkualitas tinggi dengan noise cancellation.'',
           pi_pros = Some (ustr ''Kualitas suara yang bagus; Nyaman dipakai; Baterai tahan lama''),
           pi_cons = Some (ustr ''Harga mahal; Case yang besar'')\<rparr>"
  by (simp add: get_product_info_def find_product_def name_search_def assms(2) seed_products_def
        startswith_def eval_defs agrees_rules [OF assms(1)])

lemma headphone_reply:
  assumes "agrees_on_ascii U"
  shows "product_reply U
     (Some \<lparr>pi_id = ustr ''P123'', pi_name = ustr ''Headphone Wireless'',
           pi_description = ustr ''Headphone wireless berkualitas tinggi dengan noise cancellation.'',
           pi_pros = Some (ustr ''Kualitas suara yang bagus; Nyaman dipakai; Baterai tahan lama''),
           pi_cons = Some (ustr ''Harga mahal; Case yang besar'')\<rparr>)
     (ustr ''apa kelebihan headphone'') (ustr ''headphone'') =
   ustr ''Kelebihan Headphone Wireless: Kualitas suara yang bagus; Nyaman dipakai; Baterai tahan lama''"
  by (simp add: product_reply_def str_opt_def Let_def eval_defs agrees_rules [OF assms])

lemma get_product_info_cong:
  "products s = products s' \<Longrightarrow> get_product_info U s i = get_product_info U s' i"
  by (simp add: get_product_info_def find_product_def name_search_def Let_def)

lemma extract_headphone:
  assumes "agrees_on_ascii U"
    and "products s = seed_products w1 w2" and "product_patterns_cache s = None"
  shows "extract_patterns U now (ustr ''apa kelebihan headphone'') s =
           (\<lparr>pt_order_id = None, pt_product_id = None, pt_product_name = Some (ustr ''headphone''),
             pt_matched_product = Some (ustr ''Headphone Wireless'')\<rparr>,
            s\<lparr>product_patterns_cache := Some (build_patterns U (products s)),
              cache_timestamp := Some (snd now)\<rparr>)"
  by (simp add: extract_patterns_def get_product_patterns_def Let_def assms(2,3) case_prod_beta
        seed_pattern_list [OF assms(1)] seed_pattern_map [OF assms(1)]
        msg_first_match [OF assms(1)] msg_no_ids [OF assms(1)]
      del: first_match.simps)

text \<open>
  Claim C7, as amended. With the seeded catalogue, no cached patterns and no usable action
  from the model, the message "apa kelebihan headphone" matches the pattern of the word
  headphone, whose canonical product is Headphone Wireless; the fallback classifier selects
  \<open>get_product_info\<close> with the matched text "headphone" as input; the name search of the
  tool finds Headphone Wireless and the reply is the "Kelebihan" sentence alone. This
  holds for all tables that are the known ones on ASCII.
\<close>

theorem headphone_pros_scenario:
  assumes "agrees_on_ascii U"
    and "products s = seed_products w1 w2" and "product_patterns_cache s = None"
    and "req_message req = ustr ''apa kelebihan headphone''"
    and "llm_ask e (supplied_history U e req s) (ustr ''apa kelebihan headphone'') = Some txt"
    and "needs_fallback (try_parse_json_action (json_loads e) txt) = Inr True"
  shows "pt_product_name (fst (extract_patterns U now (ustr ''apa kelebihan headphone'') s)) =
           Some (ustr ''headphone'') \<and>
         pt_matched_product (fst (extract_patterns U now (ustr ''apa kelebihan headphone'') s)) =
           Some (ustr ''Headphone Wireless'') \<and>
         determine_fallback_action U (ustr ''apa kelebihan headphone'')
             (fst (extract_patterns U now (ustr ''apa kelebihan headphone'') s)) =
           Some (mk_action (ustr ''get_product_info'') (ustr ''headphone'')) \<and>
         fst (chat U e req s) =
           Inr \<lparr>reply = ustr ''Kelebihan Headphone Wireless: Kualitas suara yang bagus; Nyaman dipakai; Baterai tahan lama'',
                tool_called = Some (ustr ''get_product_info''),
                tool_output = Some (Product_output
                  \<lparr>pi_id = ustr ''P123'', pi_name = ustr ''Headphone Wireless'',
                   pi_description =
                     ustr ''Headphone wireless berkualitas tinggi dengan noise cancellation.'',
                   pi_pros = Some (ustr ''Kualitas suara yang bagus; Nyaman dipakai; Baterai tahan lama''),
                   pi_cons = Some (ustr ''Harga mahal; Case yang besar'')\<rparr>)\<rparr>"
proof -
  let ?msg = "ustr ''apa kelebihan headphone''"
  let ?uid = "req_user_id req"
  let ?s1 = "persist_message (utcnow_user e) ?uid (ustr ''user'') ?msg s"
  let ?hist = "get_last_n_messages ?s1 ?uid 3"
  let ?s2 = "?s1\<lparr>product_patterns_cache := Some (build_patterns U (products ?s1)),
                 cache_timestamp := Some (time_store e)\<rparr>"
  let ?pats = "\<lparr>pt_order_id = None, pt_product_id = None, pt_product_name = Some (ustr ''headphone''),
                pt_matched_product = Some (ustr ''Headphone Wireless'')\<rparr>"
  note ag = assms(1)
  have ex: "extract_patterns U now ?msg s =
              (?pats, s\<lparr>product_patterns_cache := Some (build_patterns U (products s)),
                        cache_timestamp := Some (snd now)\<rparr>)"
    using assms(1-3) by (rule extract_headphone)
  have p1: "products ?s1 = seed_products w1 w2" and c1: "product_patterns_cache ?s1 = None"
    using assms(2,3) by simp_all
  have ex1: "extract_patterns U (time_check e, time_store e) ?msg ?s1 = (?pats, ?s2)"
    using extract_headphone [OF ag p1 c1, of "(time_check e, time_store e)"] by simp
  have sg: "handle_warranty_safeguard U ?s1 ?uid ?msg ?hist = No_safeguard"
    by (simp add: handle_warranty_safeguard_def msg_no_warranty [OF ag])
  have llm: "llm_ask e ?hist ?msg = Some txt"
    using assms(4,5) by (simp add: supplied_history_def msg_strip [OF ag])
  have step: "chat U e req s =
          chat_execute U e ?uid ?msg ?hist txt
            (Some (mk_action (ustr ''get_product_info'') (ustr ''headphone''))) ?s2"
    using llm sg assms(6)
    by (simp add: chat_def Let_def assms(4) msg_strip [OF ag] ex1 msg_fallback [OF ag])
  have "get_product_info U ?s2 (ustr ''headphone'') = get_product_info U s (ustr ''headphone'')"
    by (rule get_product_info_cong) simp
  then have gi: "get_product_info U ?s2 (ustr ''headphone'') =
     Some \<lparr>pi_id = ustr ''P123'', pi_name = ustr ''Headphone Wireless'',
           pi_description = ustr ''Headphone wireless berkualitas tinggi dengan noise cancellation.'',
           pi_pros = Some (ustr ''Kualitas suara yang bagus; Nyaman dipakai; Baterai tahan lama''),
           pi_cons = Some (ustr ''Harga mahal; Case yang besar'')\<rparr>"
    by (simp only: headphone_info [OF ag assms(2)])
  have "fst (chat U e req s) =
           Inr \<lparr>reply = ustr ''Kelebihan Headphone Wireless: Kualitas suara yang bagus; Nyaman dipakai; Baterai tahan lama'',
                tool_called = Some (ustr ''get_product_info''),
                tool_output = Some (Product_output
                  \<lparr>pi_id = ustr ''P123'', pi_name = ustr ''Headphone Wireless'',
                   pi_description =
                     ustr ''Headphone wireless berkualitas tinggi dengan noise cancellation.'',
                   pi_pros = Some (ustr ''Kualitas suara yang bagus; Nyaman dipakai; Baterai tahan lama''),
                   pi_cons = Some (ustr ''Harga mahal; Case yang besar'')\<rparr>)\<rparr>"
    by (simp only: step chat_execute_product gi headphone_reply [OF ag] option.map)
  moreover have "fst (extract_patterns U now ?msg s) = ?pats" by (simp add: ex)
  ultimately show ?thesis by (simp add: msg_fallback [OF ag])
qed

lemma shared_word_any_tables:
  assumes "agrees_on_ascii U"
  shows "fst (build_patterns U (products overlap_state)) =
           [ustr ''headphone wireless'', ustr ''headphone'', ustr ''wireless'',
            ustr ''wireless mouse'', ustr ''wireless'', ustr ''mouse''] \<and>
         pt_product_name (fst (extract_patterns U now (ustr ''wireless'') overlap_state)) =
           Some (ustr ''wireless'') \<and>
         pt_matched_product (fst (extract_patterns U now (ustr ''wireless'') overlap_state)) =
           Some (ustr ''Wireless Mouse'')"
  by (simp add: extract_patterns_def get_product_patterns_def Let_def case_prod_beta
        overlap_state_def empty_state_def
        build_patterns_def product_patterns_def add_pattern_def
        eval_defs agrees_rules [OF assms])

text \<open>
  Claim C2. With the products Headphone Wireless and Wireless Mouse, in this order, the
  pattern of the word wireless stands twice in the list; the message "wireless" matches
  its first occurrence, and the product recorded for the pattern is Wireless Mouse, the
  product iterated last, since the second assignment to the dictionary replaced the first.
\<close>

theorem shared_word_maps_to_last_product:
  "fst (build_patterns ascii_tables (products overlap_state)) =
     [ustr ''headphone wireless'', ustr ''headphone'', ustr ''wireless'',
      ustr ''wireless mouse'', ustr ''wireless'', ustr ''mouse''] \<and>
   pt_product_name (fst (extract_patterns ascii_tables (0, 0) (ustr ''wireless'') overlap_state)) =
     Some (ustr ''wireless'') \<and>
   pt_matched_product (fst (extract_patterns ascii_tables (0, 0) (ustr ''wireless'') overlap_state)) =
     Some (ustr ''Wireless Mouse'')"
  by (rule shared_word_any_tables [OF agrees_ascii_tables])

theorem p_prefix_skips_name_search_witness:
  "name_search ascii_tables named_p_state (ustr ''P1'') \<noteq> None \<and>
   find_product ascii_tables named_p_state (ustr ''P1'') = None \<and>
   get_product_info ascii_tables named_p_state (ustr ''P1'') = None \<and>
   get_warranty_info ascii_tables named_p_state (ustr ''P1'') = None"
proof -
  have h1: "startswith (ustr ''P1'') (ustr ''P'')" by (simp add: startswith_def ustr_def)
  have h2: "\<forall>p\<in>set (products named_p_state). p_id p \<noteq> ustr ''P1''"
    by (simp add: named_p_state_def empty_state_def)
  have n: "name_search ascii_tables named_p_state (ustr ''P1'') \<noteq> None" by code_simp
  from p_prefix_skips_name_search [OF h1 h2] n show ?thesis by blast
qed

theorem history_round_trip_witness:
  "get_all_messages_for_user (persist_turns (ustr ''user1'') example_turns other_user_state)
     (ustr ''user1'') =
     [\<lparr>h_role = ustr ''user'', h_content = ustr ''halo'', h_created_at = 5\<rparr>,
      \<lparr>h_role = ustr ''assistant'', h_content = ustr ''Hai, ada yang bisa saya bantu?'',
       h_created_at = 7\<rparr>]"
proof -
  have h: "\<forall>m\<in>set (messages other_user_state). m_user_id m \<noteq> ustr ''user1''"
    by (simp add: other_user_state_def persist_message_def seeded_state_def)
  have srt: "sorted (map fst example_turns)" by (simp add: example_turns_def)
  from history_round_trip [OF h, of example_turns] srt
  have "get_all_messages_for_user (persist_turns (ustr ''user1'') example_turns other_user_state)
          (ustr ''user1'') = map turn_item example_turns"
    by blast
  then show ?thesis by (simp add: example_turns_def turn_item_def)
qed

lemma strip_order: "strip ascii_tables (ustr '' ORD12345 '') = ustr ''ORD12345''"
  by code_simp

theorem chat_order_lookup_scoped_to_user_witness:
  "fst (chat_execute ascii_tables simple_env (ustr ''user2'') (ustr ''cek pesanan'') [] (ustr ''Baik'')
          (Some (mk_action (ustr ''get_order_status'') (ustr '' ORD12345 ''))) seeded_state) =
     Inr \<lparr>reply = ustr ''Anda tidak memiliki pesanan dengan nomor tersebut.'',
          tool_called = Some (ustr ''get_order_status''),
          tool_output = Some (Order_output (Order_not_found (Some (ustr ''ORD12345''))))\<rparr> \<and>
   (\<exists>oi. order_status_endpoint seeded_state (ustr ''ORD12345'') = Inr oi)"
proof -
  let ?ord = "\<lparr>o_order_id = ustr ''ORD12345'', o_user_id = ustr ''user1'', o_status = ustr ''Shipped'',
        o_tracking = Some (ustr ''TRACK123''), o_created_at = 1, o_product_id = ustr ''P123''\<rparr>"
  have h1: "strip ascii_tables (ustr '' ORD12345 '') \<noteq> []" by (simp add: strip_order)
  have h2: "?ord \<in> set (orders seeded_state)"
    by (simp add: seeded_state_def seed_orders_def)
  have h3: "o_order_id ?ord = strip ascii_tables (ustr '' ORD12345 '')" by (simp add: strip_order)
  have h4: "\<forall>x\<in>set (orders seeded_state).
              o_order_id x = strip ascii_tables (ustr '' ORD12345 '') \<longrightarrow> o_user_id x \<noteq> ustr ''user2''"
    by (simp add: seeded_state_def seed_orders_def strip_order)
  from chat_order_lookup_scoped_to_user [OF h1 h2 h3 h4, of simple_env "ustr ''cek pesanan''" "[]" "ustr ''Baik''"]
  show ?thesis unfolding strip_order by blast
qed

theorem fallback_order_reference_witness:
  "determine_fallback_action ascii_tables (ustr ''garansi ord778 dan info P12'')
     (fst (extract_patterns ascii_tables (0, 0) (ustr ''garansi ord778 dan info P12'') seeded_state)) =
   Some (mk_action (ustr ''get_order_status'') (ustr ''ord778''))"
proof -
  have "search_id ascii_tables True False (ustr ''ORD'') (ustr ''garansi ord778 dan info P12'') =
          Some (ustr ''ord778'')"
    by code_simp
  then have h: "pt_order_id (fst (extract_patterns ascii_tables (0, 0)
                   (ustr ''garansi ord778 dan info P12'') seeded_state)) = Some (ustr ''ord778'')"
    by (simp only: extract_order_id)
  from fallback_order_reference [OF h] show ?thesis .
qed

theorem admin_endpoints_and_cache_witness:
  "fst (seed_database_endpoint (1, 2, 3) stale_empty_state) =
     Inr (ustr ''Database seeded successfully'') \<and>
   product_patterns_cache (snd (seed_database_endpoint (1, 2, 3) stale_empty_state)) = None \<and>
   cache_timestamp (snd (seed_database_endpoint (1, 2, 3) stale_empty_state)) = None"
proof -
  have h: "fst (seed_database_endpoint (1, 2, 3) stale_empty_state) =
             Inr (ustr ''Database seeded successfully'')"
    by (simp add: seed_database_endpoint_def seed_database_def stale_empty_state_def
          empty_state_def Let_def)
  from admin_endpoints_and_cache [of stale_empty_state "(1, 2, 3)" 0] h show ?thesis by blast
qed

theorem database_status_keeps_cache:
  "product_patterns_cache (snd (database_status 150 cached_state)) \<noteq> None \<and>
   cache_timestamp (snd (database_status 150 cached_state)) = Some 100 \<and>
   st_patterns_cached (projr (fst (database_status 150 cached_state))) \<and>
   st_cache_age_seconds (projr (fst (database_status 150 cached_state))) = Some 50"
  by (simp add: database_status_def cached_state_def get_product_patterns_def seeded_state_def
        Let_def truncate_def)

theorem safeguard_explicit_id_wins_witness:
  "fst (chat ascii_tables override_env
          \<lparr>req_user_id = ustr ''user1'', req_message = ustr '' garansi P234 ''\<rparr> seeded_state) =
     Inr \<lparr>reply = warranty_reply
                    (Some \<lparr>wi_product = ustr ''Smartphone X'', wi_product_id = ustr ''P234'',
                           wi_duration_months = 12,
                           wi_terms = ustr ''Termasuk perlindungan kerusakan tidak disengaja.''\<rparr>)
                    (ustr ''P234''),
          tool_called = Some (ustr ''get_warranty_info''),
          tool_output = Some (Warranty_output
             \<lparr>wi_product = ustr ''Smartphone X'', wi_product_id = ustr ''P234'',
              wi_duration_months = 12,
              wi_terms = ustr ''Termasuk perlindungan kerusakan tidak disengaja.''\<rparr>)\<rparr>"
proof -
  let ?req = "\<lparr>req_user_id = ustr ''user1'', req_message = ustr '' garansi P234 ''\<rparr>"
  have h1: "search_words ascii_tables True safeguard_words (strip ascii_tables (req_message ?req)) \<noteq> None"
    by code_simp
  have h2: "search_id ascii_tables False True (ustr ''P'') (strip ascii_tables (req_message ?req)) =
              Some (ustr ''P234'')"
    by code_simp
  have h3: "llm_ask override_env (supplied_history ascii_tables override_env ?req seeded_state)
              (strip ascii_tables (req_message ?req)) =
            Some (ustr ''{get_order_status ORD12345} Saya cek pesanan Anda.'')"
    by (simp add: override_env_def simple_env_def)
  have wi: "get_warranty_info ascii_tables seeded_state (ustr ''P234'') =
              Some \<lparr>wi_product = ustr ''Smartphone X'', wi_product_id = ustr ''P234'',
                    wi_duration_months = 12,
                    wi_terms = ustr ''Termasuk perlindungan kerusakan tidak disengaja.''\<rparr>"
    by code_simp
  from safeguard_explicit_id_wins [OF h1 h2 h3] show ?thesis by (simp add: wi)
qed

lemma lowercase_id_any_tables:
  assumes "agrees_on_ascii U"
  shows "search_id U True False (ustr ''P'') (ustr ''garansi p123'') = Some (ustr ''p123'') \<and>
         search_id U False True (ustr ''P'') (ustr ''garansi p123'') = None \<and>
         handle_warranty_safeguard U seeded_state (ustr ''user3'') (ustr ''garansi p123'')
           [\<lparr>t_role = ustr ''user'', t_content = ustr ''garansi p123''\<rparr>] = Ask_product"
  by (simp add: handle_warranty_safeguard_def get_latest_order_for_user_def seeded_state_def
        seed_orders_def eval_defs agrees_rules [OF assms])

theorem safeguard_lowercase_id_counterexample:
  "search_words ascii_tables True safeguard_words (ustr ''garansi p123'') = Some (ustr ''garansi'') \<and>
   search_id ascii_tables True False (ustr ''P'') (ustr ''garansi p123'') = Some (ustr ''p123'') \<and>
   handle_warranty_safeguard ascii_tables seeded_state (ustr ''user3'') (ustr ''garansi p123'')
     [\<lparr>t_role = ustr ''user'', t_content = ustr ''garansi p123''\<rparr>] = Ask_product \<and>
   fst (chat ascii_tables override_env
          \<lparr>req_user_id = ustr ''user3'', req_message = ustr ''garansi p123''\<rparr> seeded_state) =
     Inr \<lparr>reply = ustr ''Produk mana yang ingin Anda ketahui informasi garansinya?'',
          tool_called = None, tool_output = None\<rparr>"
  by code_simp

lemma strip_question:
  "strip ascii_tables (ustr '' what about warranty? '') = ustr ''what about warranty?''"
  by code_simp

theorem clarification_persists_two_turns_witness:
  "chat ascii_tables simple_env
     \<lparr>req_user_id = ustr ''user3'', req_message = ustr '' what about warranty? ''\<rparr> seeded_state =
     (Inr \<lparr>reply = ustr ''Produk mana yang ingin Anda ketahui informasi garansinya?'',
           tool_called = None, tool_output = None\<rparr>,
      seeded_state\<lparr>messages := messages seeded_state @
         [\<lparr>m_user_id = ustr ''user3'', m_role = ustr ''user'',
           m_content = ustr ''what about warranty?'', m_created_at = 10\<rparr>,
          \<lparr>m_user_id = ustr ''user3'', m_role = ustr ''assistant'',
           m_content = ustr ''Produk mana yang ingin Anda ketahui informasi garansinya?'',
           m_created_at = 12\<rparr>]\<rparr>)"
proof -
  let ?req = "\<lparr>req_user_id = ustr ''user3'', req_message = ustr '' what about warranty? ''\<rparr>"
  have h1: "search_words ascii_tables True safeguard_words (strip ascii_tables (req_message ?req)) \<noteq> None"
    by code_simp
  have h2: "search_id ascii_tables False True (ustr ''P'') (strip ascii_tables (req_message ?req)) = None"
    by code_simp
  have h3: "\<forall>ord\<in>set (orders seeded_state). o_user_id ord \<noteq> req_user_id ?req"
    by (simp add: seeded_state_def seed_orders_def)
  have h4: "\<forall>m\<in>set (supplied_history ascii_tables simple_env ?req seeded_state).
              search_id ascii_tables False True (ustr ''P'') (t_content m) = None"
    by code_simp
  have h5: "llm_ask simple_env (supplied_history ascii_tables simple_env ?req seeded_state)
              (strip ascii_tables (req_message ?req)) = Some (ustr ''Maaf {saya belum mengerti'')"
    by (simp add: simple_env_def)
  from clarification_persists_two_turns [OF h1 h2 h3 h4 h5] show ?thesis
    by (simp add: strip_question simple_env_def)
qed

theorem clarification_other_keyword_or_gateway_counterexample:
  "search_words ascii_tables True warranty_words (ustr ''apakah ada jaminan?'') = Some (ustr ''jaminan'') \<and>
   search_id ascii_tables True False (ustr ''P'') (ustr ''apakah ada jaminan?'') = None \<and>
   fst (chat ascii_tables simple_env
          \<lparr>req_user_id = ustr ''user3'', req_message = ustr ''apakah ada jaminan?''\<rparr> seeded_state) =
     Inr \<lparr>reply = ustr ''Maaf {saya belum mengerti'', tool_called = None, tool_output = None\<rparr> \<and>
   fst (chat ascii_tables failing_env
          \<lparr>req_user_id = ustr ''user3'', req_message = ustr ''what about warranty?''\<rparr> seeded_state) =
     Inl (Http_error 500) \<and>
   length (messages (snd (chat ascii_tables failing_env
          \<lparr>req_user_id = ustr ''user3'', req_message = ustr ''what about warranty?''\<rparr> seeded_state))) = 1"
  by code_simp



theorem headphone_pros_scenario_witness:
  "fst (chat ascii_tables simple_env
          \<lparr>req_user_id = ustr ''user1'', req_message = ustr ''apa kelebihan headphone''\<rparr>
          seeded_state) =
     Inr \<lparr>reply = ustr ''Kelebihan Headphone Wireless: Kualitas suara yang bagus; Nyaman dipakai; Baterai tahan lama'',
          tool_called = Some (ustr ''get_product_info''),
          tool_output = Some (Product_output
            \<lparr>pi_id = ustr ''P123'', pi_name = ustr ''Headphone Wireless'',
             pi_description =
               ustr ''Headphone wireless berkualitas tinggi dengan noise cancellation.'',
             pi_pros = Some (ustr ''Kualitas suara yang bagus; Nyaman dipakai; Baterai tahan lama''),
             pi_cons = Some (ustr ''Harga mahal; Case yang besar'')\<rparr>)\<rparr>"
proof -
  let ?req = "\<lparr>req_user_id = ustr ''user1'', req_message = ustr ''apa kelebihan headphone''\<rparr>"
  have h1: "products seeded_state = seed_products 1 2" by (simp add: seeded_state_def)
  have h2: "product_patterns_cache seeded_state = None" by (simp add: seeded_state_def)
  have h3: "req_message ?req = ustr ''apa kelebihan headphone''" by simp
  have h4: "llm_ask simple_env (supplied_history ascii_tables simple_env ?req seeded_state)
              (ustr ''apa kelebihan headphone'') = Some (ustr ''Maaf {saya belum mengerti'')"
    by (simp add: simple_env_def)
  have h5: "needs_fallback (try_parse_json_action (json_loads simple_env)
              (ustr ''Maaf {saya belum mengerti'')) = Inr True"
    by (simp add: try_parse_json_action_def Let_def simple_env_def needs_fallback_def)
  from headphone_pros_scenario [OF agrees_ascii_tables h1 h2 h3 h4 h5] show ?thesis by blast
qed

theorem headphone_action_input_counterexample:
  "determine_fallback_action ascii_tables (ustr ''apa kelebihan headphone'')
     (fst (extract_patterns ascii_tables (5, 5) (ustr ''apa kelebihan headphone'') seeded_state)) =
     Some (JObj [(ustr ''action'', JStr (ustr ''get_product_info'')),
                 (ustr ''action_input'', JStr (ustr ''headphone''))]) \<and>
   pt_matched_product
     (fst (extract_patterns ascii_tables (5, 5) (ustr ''apa kelebihan headphone'') seeded_state)) =
     Some (ustr ''Headphone Wireless'') \<and>
   ustr ''headphone'' \<noteq> ustr ''Headphone Wireless'' \<and> ustr ''headphone'' \<noteq> ustr ''P123''"
  by code_simp

lemma jaminan_any_tables:
  assumes "agrees_on_ascii U"
  shows "fst (chat U simple_env
          \<lparr>req_user_id = ustr ''user3'', req_message = ustr ''apakah ada jaminan?''\<rparr> seeded_state) =
     Inr \<lparr>reply = ustr ''Maaf {saya belum mengerti'', tool_called = None, tool_output = None\<rparr>"
proof -
  note ag = agrees_rules [OF assms]
  let ?msg = "ustr ''apakah ada jaminan?''"
  have st: "strip U ?msg = ?msg" by (simp add: eval_defs ag)
  have sg: "search_words U True safeguard_words ?msg = None" by (simp add: eval_defs ag)
  have pl: "fst (build_patterns U (seed_products 1 2)) =
     [ustr ''headphone wireless'', ustr ''headphone'', ustr ''wireless'', ustr ''smartphone x'',
      ustr ''smartphone'', ustr ''gaming laptop pro'', ustr ''gaming'', ustr ''laptop'']"
    by (rule seed_pattern_list [OF assms])
  have fm: "first_match U
     [ustr ''headphone wireless'', ustr ''headphone'', ustr ''wireless'', ustr ''smartphone x'',
      ustr ''smartphone'', ustr ''gaming laptop pro'', ustr ''gaming'', ustr ''laptop''] ?msg = None"
    by (simp add: eval_defs ag)
  have ids: "search_id U True False (ustr ''ORD'') ?msg = None"
            "search_id U True False (ustr ''P'') ?msg = None"
    by (simp_all add: eval_defs ag)
  have fb: "determine_fallback_action U ?msg
              \<lparr>pt_order_id = None, pt_product_id = None, pt_product_name = None,
               pt_matched_product = None\<rparr> = None"
    by (simp add: determine_fallback_action_def with_product_def eval_defs ag)
  have ex: "fst (extract_patterns U (5, 5) ?msg
                  (persist_message 10 (ustr ''user3'') (ustr ''user'') ?msg seeded_state)) =
              \<lparr>pt_order_id = None, pt_product_id = None, pt_product_name = None,
               pt_matched_product = None\<rparr>"
    by (simp add: extract_patterns_def get_product_patterns_def Let_def case_prod_beta
          seeded_state_def pl fm ids del: first_match.simps)
  show ?thesis
    by (simp add: chat_def Let_def st simple_env_def try_parse_json_action_def needs_fallback_def
          handle_warranty_safeguard_def sg case_prod_beta ex [unfolded simple_env_def] fb
          chat_execute_def selected_action_def)
qed

lemma ill_typed_any_tables:
  assumes "agrees_on_ascii U"
  shows "fst (chat U ill_typed_env
          \<lparr>req_user_id = ustr ''user1'', req_message = ustr ''halo''\<rparr> seeded_state) =
     Inl (Http_error 500)"
proof -
  note ag = agrees_rules [OF assms]
  have st: "strip U (ustr ''halo'') = ustr ''halo''" by (simp add: eval_defs ag)
  have sg: "search_words U True safeguard_words (ustr ''halo'') = None" by (simp add: eval_defs ag)
  have tp: "try_parse_json_action (json_loads ill_typed_env) (ill_typed_span @ ustr '' Saya cek dulu.'') =
     Some (JObj [(ustr ''action'', JStr (ustr ''get_order_status'')),
                 (ustr ''action_input'', JInt 5)])"
    by code_simp
  have nf: "needs_fallback (Some (JObj [(ustr ''action'', JStr (ustr ''get_order_status'')),
                 (ustr ''action_input'', JInt 5)])) = Inr False"
    by (simp add: needs_fallback_def)
  have sel: "selected_action (Some (JObj [(ustr ''action'', JStr (ustr ''get_order_status'')),
                 (ustr ''action_input'', JInt 5)])) =
       Inr (Some (JStr (ustr ''get_order_status''), JInt 5))"
    by (simp add: selected_action_def)
  have llm: "\<And>h m. llm_ask ill_typed_env h m = Some (ill_typed_span @ ustr '' Saya cek dulu.'')"
    by (simp add: ill_typed_env_def)
  show ?thesis
    by (simp add: chat_def Let_def st llm tp nf handle_warranty_safeguard_def sg
          chat_execute_def sel run_tool_def)
qed

text \<open>
  Outside ASCII the tables decide. A letter with an accent after the digits (233) is a
  word character, so the bounded id pattern of the safeguard does not match where the
  unbounded one of the entity extraction does; full-width digits (65297 to 65299) are
  digits of both patterns.
\<close>

lemma accented_letter_after_id:
  assumes "agrees_on_ascii U" and "u_word U 233" and "\<not> u_digit U 233"
  shows "search_id U False True (ustr ''P'') (ustr ''garansi untuk P123'' @ [233]) = None \<and>
         search_id U True False (ustr ''P'') (ustr ''garansi untuk P123'' @ [233]) =
           Some (ustr ''P123'')"
  using assms(2,3) by (simp add: eval_defs agrees_rules [OF assms(1)])

lemma fullwidth_digits_in_id:
  assumes "agrees_on_ascii U"
    and "u_digit U 65297" and "u_digit U 65298" and "u_digit U 65299" and "u_word U 65299"
  shows "search_id U False True (ustr ''P'') (ustr ''garansi P'' @ [65297, 65298, 65299]) =
           Some (ustr ''P'' @ [65297, 65298, 65299]) \<and>
         search_id U True False (ustr ''ORD'') (ustr ''cek ORD'' @ [65297, 65298, 65299]) =
           Some (ustr ''ORD'' @ [65297, 65298, 65299])"
  using assms(2-5) by (simp add: eval_defs agrees_rules [OF assms(1)])

end
